theory Spec2Isabelle
  imports
    Complex_Main
    "HOL-Library.Char_ord"
    "HOL-Library.List_Lexorder"
    "HOL-Library.Product_Lexorder"
    "HOL-Library.Multiset"
    "HOL-Library.AList"
begin

section \<open>JavaScript values and objects\<close>

text \<open>
  The repositories and utilities of the database module work on plain JavaScript
  objects typed by the interfaces \<^verbatim>\<open>Template\<close>, \<^verbatim>\<open>Image\<close>, \<^verbatim>\<open>Record\<close> and
  \<^verbatim>\<open>RecogEvent\<close> of \<^verbatim>\<open>database.ts\<close>. Every property of these interfaces is a string
  or a number, and most are optional. An object is modelled as the list of its own
  enumerable properties (the order is the one \<^verbatim>\<open>Object.entries\<close> walks); reading a
  property that is not there gives \<^verbatim>\<open>undefined\<close>.

  Numbers are modelled as reals: \<^verbatim>\<open>NaN\<close>, the infinities and rounding are not
  represented.
\<close>

datatype jsval = Undefined | Null | Num real | Str string

type_synonym jsobj = "(string \<times> jsval) list"

definition prop_of :: "jsobj \<Rightarrow> string \<Rightarrow> jsval" where
  "prop_of ob k = (case map_of ob k of None \<Rightarrow> Undefined | Some v \<Rightarrow> v)"

text \<open>Truthiness, as \<^verbatim>\<open>!x\<close>, \<^verbatim>\<open>x ? a : b\<close> and \<^verbatim>\<open>x || y\<close> test it.\<close>

fun truthy :: "jsval \<Rightarrow> bool" where
  "truthy Undefined = False"
| "truthy Null = False"
| "truthy (Num x) = (x \<noteq> 0)"
| "truthy (Str s) = (s \<noteq> [])"

text \<open>The operator \<^verbatim>\<open>a || b\<close>.\<close>

definition js_or :: "jsval \<Rightarrow> jsval \<Rightarrow> jsval" where
  "js_or a b = (if truthy a then a else b)"

text \<open>
  The number held by a property that its interface types \<^verbatim>\<open>number\<close>. The
  interfaces exclude strings there; \<open>is_optional_number\<close> says that a value
  respects the type \<^verbatim>\<open>number | null | undefined\<close>.
\<close>

fun num :: "jsval \<Rightarrow> real" where
  "num (Num x) = x"
| "num _ = 0"

fun is_optional_number :: "jsval \<Rightarrow> bool" where
  "is_optional_number (Str s) = False"
| "is_optional_number _ = True"

fun absent :: "jsval \<Rightarrow> bool" where
  "absent Undefined = True"
| "absent Null = True"
| "absent _ = False"


section \<open>Utilities (utils.ts)\<close>

subsection \<open>Image quality\<close>

text \<open>
  \<^verbatim>\<open>calculateImageQuality(image)\<close>: 1.0 when neither \<^verbatim>\<open>blur\<close> nor \<^verbatim>\<open>glare\<close> is
  truthy; otherwise the smaller of the two component scores, a falsy component
  scoring 1.0.
\<close>

definition calculateImageQuality :: "jsobj \<Rightarrow> real" where
  "calculateImageQuality img =
     (if \<not> truthy (prop_of img ''blur'') \<and> \<not> truthy (prop_of img ''glare'') then 1
      else
        let blurScore =
              (if truthy (prop_of img ''blur'') then max 0 (1 - num (prop_of img ''blur'')) else 1);
            glareScore =
              (if truthy (prop_of img ''glare'') then max 0 (1 - num (prop_of img ''glare'')) else 1)
        in min blurScore glareScore)"

text \<open>The score of one component as the specification words it.\<close>

fun component_score :: "jsval \<Rightarrow> real" where
  "component_score (Num x) = max 0 (1 - x)"
| "component_score _ = 1"

definition Image_typed :: "jsobj \<Rightarrow> bool" where
  "Image_typed img \<longleftrightarrow>
     is_optional_number (prop_of img ''blur'') \<and> is_optional_number (prop_of img ''glare'')"

subsection \<open>Homography and region-map text\<close>

text \<open>
  \<^verbatim>\<open>JSON.parse\<close> and \<^verbatim>\<open>JSON.stringify\<close> belong to the JavaScript engine, not to
  this module. For the two parsers they are a parameter that returns a value or
  throws. For the round trip of a matrix they are written out below, as ECMAScript
  defines them on arrays of arrays of numbers.
\<close>

text \<open>
  A JavaScript number: finite, or one of \<^verbatim>\<open>NaN\<close>, \<^verbatim>\<open>Infinity\<close>, \<^verbatim>\<open>-Infinity\<close>.
  A homography is a \<^verbatim>\<open>number[][]\<close>.
\<close>

datatype jsnumber = Finite real | NaN | PosInfinity | NegInfinity

text \<open>The values \<^verbatim>\<open>JSON.parse\<close> can return.\<close>

datatype json =
    JNull
  | JBool bool
  | JNum jsnumber
  | JStr string
  | JArr "json list"
  | JObj "(string \<times> json) list"

datatype 'a outcome = Return 'a | Throw

text \<open>\<^verbatim>\<open>try { body } catch { handler }\<close>.\<close>

definition try_catch :: "'a outcome \<Rightarrow> 'a outcome \<Rightarrow> 'a outcome" where
  "try_catch body handler = (case body of Throw \<Rightarrow> handler | Return v \<Rightarrow> Return v)"

text \<open>
  \<^verbatim>\<open>parseHomography(homographyString)\<close>: the argument is a string, \<^verbatim>\<open>null\<close> or
  \<^verbatim>\<open>undefined\<close> (here \<open>None\<close>); a falsy argument, the empty string included, gives
  \<^verbatim>\<open>null\<close> without parsing.
\<close>

definition parseHomography :: "(string \<Rightarrow> json outcome) \<Rightarrow> string option \<Rightarrow> json outcome" where
  "parseHomography JSON_parse homographyString =
     (case homographyString of
        None \<Rightarrow> Return JNull
      | Some s \<Rightarrow>
          if s = [] then Return JNull
          else try_catch (JSON_parse s) (Return JNull))"

text \<open>The matrix as a JavaScript value.\<close>

definition matrix_json :: "jsnumber list list \<Rightarrow> json" where
  "matrix_json m = JArr (map (\<lambda>r. JArr (map JNum r)) m)"

text \<open>
  \<^verbatim>\<open>stringifyHomography(matrix)\<close>: an array is truthy even when empty, so only
  \<^verbatim>\<open>null\<close> and \<^verbatim>\<open>undefined\<close> (here \<open>None\<close>) take the early return.
\<close>

definition stringifyHomography ::
  "(jsnumber list list \<Rightarrow> string outcome) \<Rightarrow> jsnumber list list option
     \<Rightarrow> string option outcome" where
  "stringifyHomography JSON_stringify matrix =
     (case matrix of
        None \<Rightarrow> Return None
      | Some m \<Rightarrow>
          try_catch
            (case JSON_stringify m of Return s \<Rightarrow> Return (Some s) | Throw \<Rightarrow> Throw)
            (Return None))"

text \<open>\<^verbatim>\<open>parseRoiMap(roiMapString)\<close>.\<close>

definition parseRoiMap :: "(string \<Rightarrow> json outcome) \<Rightarrow> string \<Rightarrow> json outcome" where
  "parseRoiMap JSON_parse roiMapString = try_catch (JSON_parse roiMapString) (Return JNull)"

text \<open>The composition \<^verbatim>\<open>parseHomography(stringifyHomography(matrix))\<close>.\<close>

definition homography_roundtrip ::
  "(jsnumber list list \<Rightarrow> string outcome) \<Rightarrow> (string \<Rightarrow> json outcome)
     \<Rightarrow> jsnumber list list option \<Rightarrow> json outcome" where
  "homography_roundtrip JSON_stringify JSON_parse matrix =
     (case stringifyHomography JSON_stringify matrix of
        Throw \<Rightarrow> Throw
      | Return s \<Rightarrow> parseHomography JSON_parse s)"

text \<open>A parser that knows two texts, used to run the two parsers.\<close>

definition toy_parse :: "string \<Rightarrow> json outcome" where
  "toy_parse s =
     (if s = ''[[1,0],[0,1]]''
      then Return (matrix_json [[Finite 1, Finite 0], [Finite 0, Finite 1]])
      else if s = ''null'' then Return JNull
      else Throw)"

subsection \<open>The engine's JSON on matrices\<close>

text \<open>
  \<^verbatim>\<open>JSON.stringify\<close> of a \<^verbatim>\<open>number[][]\<close>, without indentation: brackets, commas
  and no white space; a finite number as the engine's decimal text for it
  (\<open>number_text\<close>, a parameter: printing a double is the engine's arithmetic), and
  \<^verbatim>\<open>NaN\<close> and the infinities as \<^verbatim>\<open>null\<close>. It never throws on such a value.
\<close>

fun number_json_text :: "(real \<Rightarrow> string) \<Rightarrow> jsnumber \<Rightarrow> string" where
  "number_json_text number_text (Finite x) = number_text x"
| "number_json_text number_text _ = ''null''"

fun join_commas :: "string list \<Rightarrow> string" where
  "join_commas [] = []"
| "join_commas [t] = t"
| "join_commas (t # u # ts) = t @ '','' @ join_commas (u # ts)"

definition array_text :: "string list \<Rightarrow> string" where
  "array_text ts = ''['' @ join_commas ts @ '']''"

definition JSON_stringify_matrix :: "(real \<Rightarrow> string) \<Rightarrow> jsnumber list list \<Rightarrow> string outcome" where
  "JSON_stringify_matrix number_text m =
     Return (array_text (map (\<lambda>r. array_text (map (number_json_text number_text) r)) m))"

text \<open>
  \<^verbatim>\<open>JSON.parse\<close> on the texts of that shape: an array of arrays whose elements are
  \<^verbatim>\<open>null\<close> or a number token, the longest run of number characters, read by the
  engine (\<open>parse_number\<close>, a parameter). On every other text the parser is whatever
  the engine does (\<open>other\<close>, a parameter that may throw).
\<close>

definition is_number_char :: "char \<Rightarrow> bool" where
  "is_number_char c \<longleftrightarrow> c \<in> set ''0123456789+-.eE''"

definition parse_element :: "(string \<Rightarrow> real option) \<Rightarrow> string \<Rightarrow> (json \<times> string) option" where
  "parse_element parse_number s =
     (if take 4 s = ''null'' then Some (JNull, drop 4 s)
      else
        let token = takeWhile is_number_char s
        in if token = [] then None
           else (case parse_number token of
                   None \<Rightarrow> None
                 | Some x \<Rightarrow> Some (JNum (Finite x), dropWhile is_number_char s)))"

text \<open>
  The elements after an opening bracket, up to the closing one. The fuel bounds
  the number of elements; the length of the text is always enough.
\<close>

fun parse_items :: "(string \<Rightarrow> (json \<times> string) option) \<Rightarrow> nat \<Rightarrow> string
                      \<Rightarrow> (json list \<times> string) option" where
  "parse_items item 0 s = None"
| "parse_items item (Suc fuel) s =
     (case item s of
        None \<Rightarrow> None
      | Some (v, rest) \<Rightarrow>
          (case rest of
             [] \<Rightarrow> None
           | c # rest' \<Rightarrow>
               if c = CHR '']'' then Some ([v], rest')
               else if c = CHR '','' then
                 (case parse_items item fuel rest' of
                    None \<Rightarrow> None
                  | Some (vs, rest'') \<Rightarrow> Some (v # vs, rest''))
               else None))"

definition parse_array :: "(string \<Rightarrow> (json \<times> string) option) \<Rightarrow> string
                             \<Rightarrow> (json \<times> string) option" where
  "parse_array item s =
     (case s of
        [] \<Rightarrow> None
      | c # rest \<Rightarrow>
          if c \<noteq> CHR ''['' then None
          else if take 1 rest = '']'' then Some (JArr [], drop 1 rest)
          else (case parse_items item (length rest) rest of
                  None \<Rightarrow> None
                | Some (vs, rest') \<Rightarrow> Some (JArr vs, rest')))"

definition JSON_parse_matrix ::
  "(string \<Rightarrow> real option) \<Rightarrow> (string \<Rightarrow> json outcome) \<Rightarrow> string \<Rightarrow> json outcome" where
  "JSON_parse_matrix parse_number other s =
     (case parse_array (parse_array (parse_element parse_number)) s of
        Some (v, []) \<Rightarrow> Return v
      | _ \<Rightarrow> other s)"

text \<open>What a number of the matrix is after the round trip.\<close>

fun parsed_number :: "jsnumber \<Rightarrow> json" where
  "parsed_number (Finite x) = JNum (Finite x)"
| "parsed_number _ = JNull"

fun is_finite :: "jsnumber \<Rightarrow> bool" where
  "is_finite (Finite x) = True"
| "is_finite _ = False"

text \<open>
  What is taken from the engine's arithmetic, number by number: the text of a
  finite number is a non-empty run of number characters that the engine reads
  back as the same number.
\<close>

definition number_roundtrips :: "(real \<Rightarrow> string) \<Rightarrow> (string \<Rightarrow> real option) \<Rightarrow> real \<Rightarrow> bool" where
  "number_roundtrips number_text parse_number x \<longleftrightarrow>
     number_text x \<noteq> [] \<and> list_all is_number_char (number_text x)
     \<and> parse_number (number_text x) = Some x"

definition entries_roundtrip ::
  "(real \<Rightarrow> string) \<Rightarrow> (string \<Rightarrow> real option) \<Rightarrow> jsnumber list list \<Rightarrow> bool" where
  "entries_roundtrip number_text parse_number m \<longleftrightarrow>
     list_all (list_all (\<lambda>n. case n of Finite x \<Rightarrow> number_roundtrips number_text parse_number x
                                   | _ \<Rightarrow> True)) m"

text \<open>The rest of a text after an element: a comma or a closing bracket comes first.\<close>

definition closer :: "string \<Rightarrow> bool" where
  "closer rest \<longleftrightarrow> take 1 rest = '','' \<or> take 1 rest = '']''"

text \<open>
  A number conversion to run the functions with: natural numbers in decimal
  digits (any other number is printed as a question mark, which is no number
  text).
\<close>

definition digit_char :: "nat \<Rightarrow> char" where
  "digit_char k = ''0123456789'' ! k"

definition digit_value :: "char \<Rightarrow> nat" where
  "digit_value c = length (takeWhile (\<lambda>d. d \<noteq> c) ''0123456789'')"

fun nat_text :: "nat \<Rightarrow> string" where
  "nat_text n = (if n < 10 then [digit_char n] else nat_text (n div 10) @ [digit_char (n mod 10)])"

declare nat_text.simps [simp del]

definition digits_value :: "string \<Rightarrow> nat" where
  "digits_value s = fold (\<lambda>c a. 10 * a + digit_value c) s 0"

definition example_number_text :: "real \<Rightarrow> string" where
  "example_number_text x = (if 0 \<le> x \<and> real (nat \<lfloor>x\<rfloor>) = x then nat_text (nat \<lfloor>x\<rfloor>) else ''?'')"

definition example_parse_number :: "string \<Rightarrow> real option" where
  "example_parse_number s =
     (if s \<noteq> [] \<and> list_all (\<lambda>c. c \<in> set ''0123456789'') s then Some (real (digits_value s))
      else None)"

definition JSON_syntax_error :: "string \<Rightarrow> json outcome" where
  "JSON_syntax_error s = Throw"

definition identity_homography :: "jsnumber list list" where
  "identity_homography =
     [[Finite 1, Finite 0, Finite 0], [Finite 0, Finite 1, Finite 0], [Finite 0, Finite 0, Finite 1]]"

definition nan_homography :: "jsnumber list list" where
  "nan_homography = [[Finite 1, NaN], [PosInfinity, Finite 1]]"


subsection \<open>Record validation\<close>

text \<open>
  \<^verbatim>\<open>Number(value)\<close>: \<open>None\<close> is \<^verbatim>\<open>NaN\<close>. Reading a number out of a string is
  the engine's business (\<open>Number_of_string\<close>).
\<close>

fun Number :: "(string \<Rightarrow> real option) \<Rightarrow> jsval \<Rightarrow> real option" where
  "Number Number_of_string Undefined = None"
| "Number Number_of_string Null = Some 0"
| "Number Number_of_string (Num x) = Some x"
| "Number Number_of_string (Str s) = Number_of_string s"

definition numericFields :: "string list" where
  "numericFields =
     [''input_L_mm'', ''input_W_mm'', ''input_T_mm'', ''input_count'',
      ''output_L_mm'', ''output_W_mm'', ''output_T_mm'', ''output_count'',
      ''qc_ok'', ''qc_ng'']"

text \<open>
  \<^verbatim>\<open>validateRecord(record)\<close>, the only check of a record among the sources: the list
  of its error messages.
\<close>

definition validateRecord :: "(string \<Rightarrow> real option) \<Rightarrow> jsobj \<Rightarrow> string list" where
  "validateRecord Number_of_string rec =
     (if \<not> truthy (prop_of rec ''created_at'') then [''created_at is required''] else [])
     @ concat (map (\<lambda>field.
          let v = prop_of rec field
          in if v \<noteq> Undefined \<and> v \<noteq> Null
                \<and> (case Number Number_of_string v of None \<Rightarrow> True | Some x \<Rightarrow> x < 0)
             then [field @ '' must be a non-negative number''] else [])
        numericFields)
     @ (if prop_of rec ''verified'' \<noteq> Undefined
           \<and> \<not> (case Number Number_of_string (prop_of rec ''verified'') of
                   None \<Rightarrow> False
                 | Some x \<Rightarrow> x = 0 \<or> x = 1)
        then [''verified must be 0 or 1''] else [])"

subsection \<open>Hard gate\<close>

text \<open>
  Modelled from the spec: the validation engine that fills the interface
  \<^verbatim>\<open>ValidationState\<close> of \<^verbatim>\<open>types/form.ts\<close> (\<^verbatim>\<open>isValid\<close>, \<^verbatim>\<open>hardGatePassed\<close>,
  \<^verbatim>\<open>issues\<close>) is not among the sources; only the interface is, with the comment
  \<^verbatim>\<open>qc_ok + qc_ng = output_count\<close> on \<^verbatim>\<open>hardGatePassed\<close>. \<^verbatim>\<open>validateRecord\<close>
  above returns messages and computes no verdict. The verdict below
  follows section 4.3 of the specification: true only when \<^verbatim>\<open>qc_ok\<close>, \<^verbatim>\<open>qc_ng\<close> and
  \<^verbatim>\<open>output_count\<close> are all present and \<^verbatim>\<open>qc_ok + qc_ng == output_count\<close>.
\<close>

definition hardGatePassed :: "jsobj \<Rightarrow> bool" where
  "hardGatePassed candidate =
     (case (prop_of candidate ''qc_ok'', prop_of candidate ''qc_ng'',
            prop_of candidate ''output_count'') of
        (Num ok, Num ng, Num out) \<Rightarrow> ok + ng = out
      | _ \<Rightarrow> False)"


section \<open>The store (database.ts)\<close>

text \<open>
  The repositories reach SQLite through \<^verbatim>\<open>databaseManager.executeQuery\<close> and
  \<^verbatim>\<open>databaseManager.executeUpdate\<close>, each with an SQL text and a list of bound
  values. The engine is not part of the module; what follows is the meaning of the
  SQL the repositories write. A row is the object \<^verbatim>\<open>getAllAsync\<close> returns: column
  name and value, SQL \<^verbatim>\<open>NULL\<close> read as \<^verbatim>\<open>null\<close>. A database maps each table
  name to its rows, in rowid order: the four tables of the schema and SQLite's own
  \<^verbatim>\<open>sqlite_sequence\<close>.

  A statement that names an unknown column or would break a constraint of the
  schema (\<^verbatim>\<open>NOT NULL\<close>, primary key, foreign key with
  \<^verbatim>\<open>PRAGMA foreign_keys = ON\<close>) is rejected: \<^verbatim>\<open>executeUpdate\<close> logs and rethrows,
  and nothing is written.

  Left out: the conversions of SQLite's column affinities (bound values are taken
  to have the types the TypeScript signatures give them) and the
  use-before-initialise error of \<^verbatim>\<open>getDatabase\<close>.
\<close>

type_synonym row = jsobj

type_synonym db = "string \<Rightarrow> row list"

text \<open>
  SQLite's order between values: \<^verbatim>\<open>NULL\<close> first, then numbers by value, then text
  byte by byte.
\<close>

fun sql_key :: "jsval \<Rightarrow> nat \<times> real \<times> string" where
  "sql_key Undefined = (0, 0, [])"
| "sql_key Null = (0, 0, [])"
| "sql_key (Num x) = (1, x, [])"
| "sql_key (Str s) = (2, 0, s)"

text \<open>Comparisons are three-valued: \<open>None\<close> is SQL's unknown, the result on \<^verbatim>\<open>NULL\<close>.\<close>

definition sql_lt :: "jsval \<Rightarrow> jsval \<Rightarrow> bool option" where
  "sql_lt a b = (if absent a \<or> absent b then None else Some (sql_key a < sql_key b))"

definition sql_gt :: "jsval \<Rightarrow> jsval \<Rightarrow> bool option" where
  "sql_gt a b = sql_lt b a"

definition sql_le :: "jsval \<Rightarrow> jsval \<Rightarrow> bool option" where
  "sql_le a b = (if absent a \<or> absent b then None else Some (sql_key a \<le> sql_key b))"

definition sql_eq :: "jsval \<Rightarrow> jsval \<Rightarrow> bool option" where
  "sql_eq a b = (if absent a \<or> absent b then None else Some (sql_key a = sql_key b))"

fun sql_and :: "bool option \<Rightarrow> bool option \<Rightarrow> bool option" where
  "sql_and (Some False) _ = Some False"
| "sql_and _ (Some False) = Some False"
| "sql_and (Some True) (Some True) = Some True"
| "sql_and _ _ = None"

fun sql_or :: "bool option \<Rightarrow> bool option \<Rightarrow> bool option" where
  "sql_or (Some True) _ = Some True"
| "sql_or _ (Some True) = Some True"
| "sql_or (Some False) (Some False) = Some False"
| "sql_or _ _ = None"

text \<open>\<^verbatim>\<open>x BETWEEN lo AND hi\<close> is \<^verbatim>\<open>x >= lo AND x <= hi\<close>.\<close>

definition sql_between :: "jsval \<Rightarrow> jsval \<Rightarrow> jsval \<Rightarrow> bool option" where
  "sql_between x lo hi = sql_and (sql_le lo x) (sql_le x hi)"

definition sql_is_not_null :: "jsval \<Rightarrow> bool option" where
  "sql_is_not_null v = Some (\<not> absent v)"

text \<open>\<^verbatim>\<open>COALESCE(v, d)\<close> and \<^verbatim>\<open>CASE WHEN c THEN a ELSE b END\<close>.\<close>

definition coalesce :: "jsval \<Rightarrow> jsval \<Rightarrow> jsval" where
  "coalesce v d = (if absent v then d else v)"

definition case_when :: "bool option \<Rightarrow> jsval \<Rightarrow> jsval \<Rightarrow> jsval" where
  "case_when c a b = (if c = Some True then a else b)"

text \<open>
  Aggregates over the values of the selected rows. \<^verbatim>\<open>SUM\<close>, \<^verbatim>\<open>AVG\<close>, \<^verbatim>\<open>MIN\<close> and
  \<^verbatim>\<open>MAX\<close> skip \<^verbatim>\<open>NULL\<close> and are \<^verbatim>\<open>NULL\<close> when nothing is left; \<^verbatim>\<open>COUNT( * )\<close> counts
  rows.
\<close>

definition non_null :: "jsval list \<Rightarrow> jsval list" where
  "non_null vs = filter (\<lambda>v. \<not> absent v) vs"

definition sql_sum :: "jsval list \<Rightarrow> jsval" where
  "sql_sum vs = (if non_null vs = [] then Null else Num (sum_list (map num (non_null vs))))"

definition sql_avg :: "jsval list \<Rightarrow> jsval" where
  "sql_avg vs =
     (if non_null vs = [] then Null
      else Num (sum_list (map num (non_null vs)) / real (length (non_null vs))))"

definition sql_min :: "jsval list \<Rightarrow> jsval" where
  "sql_min vs = (case sort_key sql_key (non_null vs) of [] \<Rightarrow> Null | v # _ \<Rightarrow> v)"

definition sql_max :: "jsval list \<Rightarrow> jsval" where
  "sql_max vs = (case rev (sort_key sql_key (non_null vs)) of [] \<Rightarrow> Null | v # _ \<Rightarrow> v)"

definition sql_count :: "row list \<Rightarrow> jsval" where
  "sql_count rs = Num (real (length rs))"

text \<open>
  \<^verbatim>\<open>SELECT * FROM t WHERE w ORDER BY ...\<close>: the rows on which \<open>w\<close> is true, in
  the order asked for. Without \<^verbatim>\<open>ORDER BY\<close> SQL promises no order; the model
  returns the table's own. Between rows with equal keys the engine is free; the
  model fixes one order.
\<close>

datatype ordering = Unordered | Asc string | Desc string

fun order_by :: "ordering \<Rightarrow> row list \<Rightarrow> row list" where
  "order_by Unordered rs = rs"
| "order_by (Asc c) rs = sort_key (\<lambda>r. sql_key (prop_of r c)) rs"
| "order_by (Desc c) rs = rev (sort_key (\<lambda>r. sql_key (prop_of r c)) rs)"

definition select_where :: "(row \<Rightarrow> bool option) \<Rightarrow> ordering \<Rightarrow> row list \<Rightarrow> row list" where
  "select_where w ord rs = order_by ord (filter (\<lambda>r. w r = Some True) rs)"

definition select_all :: "ordering \<Rightarrow> row list \<Rightarrow> row list" where
  "select_all ord rs = order_by ord rs"

text \<open>
  \<^verbatim>\<open>LIMIT ?\<close> and \<^verbatim>\<open>OFFSET ?\<close> as \<^verbatim>\<open>findAll(limit, offset)\<close> appends them: the
  offset only inside the test for the limit. A negative limit is no limit, a
  negative offset is zero.
\<close>

definition limit_offset :: "int option \<Rightarrow> int option \<Rightarrow> row list \<Rightarrow> row list" where
  "limit_offset limit offset rs =
     (case limit of
        None \<Rightarrow> rs
      | Some l \<Rightarrow>
          let skipped = (case offset of None \<Rightarrow> rs | Some off \<Rightarrow> drop (nat off) rs)
          in if l < 0 then skipped else take (nat l) skipped)"

text \<open>The schema, as \<^verbatim>\<open>createTables\<close> declares it.\<close>

definition table_columns :: "string \<Rightarrow> string list" where
  "table_columns table =
     (if table = ''templates'' then [''template_id'', ''version'', ''roi_map_json'']
      else if table = ''images'' then
        [''img_id'', ''uri'', ''rectified_uri'', ''template_id'', ''homography'',
         ''blur'', ''glare'', ''created_at'']
      else if table = ''records'' then
        [''id'', ''date'', ''hour'', ''site'', ''form_type'', ''model_code'',
         ''input_L_mm'', ''input_W_mm'', ''input_T_mm'', ''input_count'',
         ''output_L_mm'', ''output_W_mm'', ''output_T_mm'', ''output_count'',
         ''qc_ok'', ''qc_ng'', ''operator_id'', ''batch_no'', ''line_id'',
         ''notes'', ''img_ref'', ''source_img_id'', ''model_version'', ''verified'',
         ''created_at'']
      else if table = ''recog_events'' then
        [''id'', ''img_id'', ''field_id'', ''raw_text'', ''value'', ''conf'', ''corrected'',
         ''created_at'']
      else [])"

definition primary_key :: "string \<Rightarrow> string" where
  "primary_key table =
     (if table = ''templates'' then ''template_id''
      else if table = ''images'' then ''img_id''
      else ''id'')"

definition not_null_columns :: "string \<Rightarrow> string list" where
  "not_null_columns table =
     (if table = ''templates'' then [''version'', ''roi_map_json'']
      else if table = ''images'' then [''uri'', ''created_at'']
      else if table = ''records'' then [''created_at'']
      else [])"

definition column_default :: "string \<Rightarrow> string \<Rightarrow> jsval" where
  "column_default table c =
     (if (table = ''records'' \<and> c = ''verified'') \<or> (table = ''recog_events'' \<and> c = ''corrected'')
      then Num 0 else Null)"

text \<open>Foreign keys: the column, the table it refers to and the column there.\<close>

definition foreign_keys :: "string \<Rightarrow> (string \<times> string \<times> string) list" where
  "foreign_keys table =
     (if table = ''images'' then [(''template_id'', ''templates'', ''template_id'')]
      else if table = ''records'' then [(''source_img_id'', ''images'', ''img_id'')]
      else if table = ''recog_events'' then [(''img_id'', ''images'', ''img_id'')]
      else [])"

text \<open>The tables and columns that refer to the primary key of a table.\<close>

definition referencing :: "string \<Rightarrow> (string \<times> string) list" where
  "referencing table =
     (if table = ''templates'' then [(''images'', ''template_id'')]
      else if table = ''images'' then [(''records'', ''source_img_id''), (''recog_events'', ''img_id'')]
      else [])"

definition autoincrement :: "string \<Rightarrow> bool" where
  "autoincrement table \<longleftrightarrow> table = ''records'' \<or> table = ''recog_events''"

text \<open>Some row of the table has the value \<open>v\<close> in the column.\<close>

definition holds :: "db \<Rightarrow> string \<Rightarrow> string \<Rightarrow> jsval \<Rightarrow> bool" where
  "holds d table column v = list_ex (\<lambda>p. sql_eq (prop_of p column) v = Some True) (d table)"

text \<open>
  The statements \<^verbatim>\<open>executeUpdate\<close> receives: an insert with its column list and
  bound values, and an update with its \<^verbatim>\<open>SET\<close> list and the \<^verbatim>\<open>WHERE key = ?\<close>
  test.
\<close>

datatype stmt =
    Insert string "string list" "jsval list"
  | Update string "(string \<times> jsval) list" string jsval

definition set_columns :: "(string \<times> jsval) list \<Rightarrow> row \<Rightarrow> row" where
  "set_columns sets r = foldl (\<lambda>r' (c, v). AList.update c v r') r sets"

text \<open>
  The rowid of the next row of \<^verbatim>\<open>records\<close> and \<^verbatim>\<open>recog_events\<close>
  (\<^verbatim>\<open>INTEGER PRIMARY KEY AUTOINCREMENT\<close>): one more than the largest rowid the
  table holds or has ever held; the latter is what \<^verbatim>\<open>sqlite_sequence\<close> records, so
  that the id of a deleted row is not given again.
\<close>

definition sequence_of :: "db \<Rightarrow> string \<Rightarrow> nat" where
  "sequence_of d table =
     foldr max
       (map (\<lambda>s. nat \<lfloor>num (prop_of s ''seq'')\<rfloor>)
          (filter (\<lambda>s. prop_of s ''name'' = Str table) (d ''sqlite_sequence'')))
       0"

definition next_rowid :: "db \<Rightarrow> string \<Rightarrow> nat" where
  "next_rowid d table =
     Suc (max (foldr max (map (\<lambda>r. nat \<lfloor>num (prop_of r ''id'')\<rfloor>) (d table)) 0)
              (sequence_of d table))"

definition record_sequence :: "string \<Rightarrow> nat \<Rightarrow> db \<Rightarrow> db" where
  "record_sequence table rowid d =
     (if autoincrement table
      then d(''sqlite_sequence'' :=
               [(''name'', Str table), (''seq'', Num (real rowid))]
               # filter (\<lambda>s. prop_of s ''name'' \<noteq> Str table) (d ''sqlite_sequence''))
      else d)"

text \<open>
  The row an insert builds: the bound value for a listed column, the new rowid
  for the \<^verbatim>\<open>id\<close> of an autoincrement table, the column's default otherwise.
\<close>

definition insert_row :: "string \<Rightarrow> string list \<Rightarrow> jsval list \<Rightarrow> nat \<Rightarrow> row" where
  "insert_row table columns params rowid =
     map (\<lambda>c. (c, if c \<in> set columns then prop_of (zip columns params) c
                   else if autoincrement table \<and> c = ''id'' then Num (real rowid)
                   else column_default table c))
       (table_columns table)"

text \<open>
  The constraints on a row, checked for the columns a statement writes: a
  \<^verbatim>\<open>NOT NULL\<close> column holds a value, and a foreign key is \<^verbatim>\<open>NULL\<close> or the key of a
  row of the table it refers to.
\<close>

definition row_accepted :: "db \<Rightarrow> string \<Rightarrow> string list \<Rightarrow> row \<Rightarrow> bool" where
  "row_accepted d table written r \<longleftrightarrow>
     list_all (\<lambda>c. c \<notin> set written \<or> \<not> absent (prop_of r c)) (not_null_columns table)
     \<and> list_all (\<lambda>(c, parent, key).
           c \<notin> set written \<or> absent (prop_of r c) \<or> holds d parent key (prop_of r c))
         (foreign_keys table)"

text \<open>
  An update may change a primary key only to a value no other row has, and only
  of a row nothing refers to.
\<close>

definition key_accepted :: "db \<Rightarrow> string \<Rightarrow> string list \<Rightarrow> row list \<Rightarrow> row \<Rightarrow> row \<Rightarrow> bool" where
  "key_accepted d table written rows r r' \<longleftrightarrow>
     primary_key table \<notin> set written
     \<or> sql_key (prop_of r' (primary_key table)) = sql_key (prop_of r (primary_key table))
     \<or> (length (filter (\<lambda>p. sql_eq (prop_of p (primary_key table))
                                    (prop_of r' (primary_key table)) = Some True) rows) \<le> 1
         \<and> \<not> list_ex (\<lambda>(child, column). holds d child column (prop_of r (primary_key table)))
               (referencing table))"

text \<open>
  \<^verbatim>\<open>executeUpdate(query, params)\<close>: it throws when the engine rejects the
  statement, and otherwise returns the \<^verbatim>\<open>lastInsertRowId\<close> and the database
  after. The \<^verbatim>\<open>lastInsertRowId\<close> is modelled for inserts into the two
  autoincrement tables, whose \<^verbatim>\<open>create\<close> returns it; no other caller reads it.
\<close>

fun executeUpdate :: "stmt \<Rightarrow> db \<Rightarrow> (nat \<times> db) outcome" where
  "executeUpdate (Insert table columns params) d =
     (if table_columns table = [] \<or> length params \<noteq> length columns
         \<or> \<not> list_all (\<lambda>c. c \<in> set (table_columns table)) columns
      then Throw
      else
        let rowid = next_rowid d table;
            r = insert_row table columns params rowid
        in if row_accepted d table (table_columns table) r
              \<and> \<not> holds d table (primary_key table) (prop_of r (primary_key table))
           then Return (rowid, record_sequence table rowid (d(table := d table @ [r])))
           else Throw)"
| "executeUpdate (Update table sets key_column key) d =
     (if \<not> list_all (\<lambda>c. c \<in> set (table_columns table)) (key_column # map fst sets)
      then Throw
      else
        let rows = map (\<lambda>r. if sql_eq (prop_of r key_column) key = Some True
                              then set_columns sets r else r) (d table)
        in if list_all (\<lambda>r. sql_eq (prop_of r key_column) key \<noteq> Some True
                             \<or> (row_accepted d table (map fst sets) (set_columns sets r)
                                \<and> key_accepted d table (map fst sets) rows r (set_columns sets r)))
                (d table)
           then Return (0, d(table := rows))
           else Throw)"

text \<open>The database after a call, for the repository methods that return nothing.\<close>

definition db_after :: "(nat \<times> db) outcome \<Rightarrow> db outcome" where
  "db_after result = (case result of Throw \<Rightarrow> Throw | Return (rowid, d) \<Rightarrow> Return d)"

text \<open>One call after another: \<^verbatim>\<open>await a; await b\<close>.\<close>

definition and_then :: "db outcome \<Rightarrow> (db \<Rightarrow> db outcome) \<Rightarrow> db outcome" where
  "and_then first second = (case first of Throw \<Rightarrow> Throw | Return d \<Rightarrow> second d)"


section \<open>Repositories (repositories.ts)\<close>

subsection \<open>TemplatesRepository\<close>

definition TemplatesRepository_create :: "jsobj \<Rightarrow> db \<Rightarrow> db outcome" where
  "TemplatesRepository_create template d =
     db_after (executeUpdate
       (Insert ''templates'' [''template_id'', ''version'', ''roi_map_json'']
          [prop_of template ''template_id'',
           prop_of template ''version'',
           prop_of template ''roi_map_json''])
       d)"

definition TemplatesRepository_findAll :: "db \<Rightarrow> row list" where
  "TemplatesRepository_findAll d = select_all (Asc ''template_id'') (d ''templates'')"

definition TemplatesRepository_update_stmt :: "jsobj \<Rightarrow> stmt option" where
  "TemplatesRepository_update_stmt template =
     Some (Update ''templates''
       [(''version'', prop_of template ''version''),
        (''roi_map_json'', prop_of template ''roi_map_json'')]
       ''template_id'' (prop_of template ''template_id''))"

definition TemplatesRepository_findByVersion :: "string \<Rightarrow> db \<Rightarrow> row list" where
  "TemplatesRepository_findByVersion version d =
     select_where (\<lambda>r. sql_eq (prop_of r ''version'') (Str version)) Unordered (d ''templates'')"

subsection \<open>ImagesRepository\<close>

definition ImagesRepository_create :: "jsobj \<Rightarrow> db \<Rightarrow> db outcome" where
  "ImagesRepository_create img d =
     db_after (executeUpdate
       (Insert ''images''
          [''img_id'', ''uri'', ''rectified_uri'', ''template_id'', ''homography'',
           ''blur'', ''glare'', ''created_at'']
          [prop_of img ''img_id'',
           prop_of img ''uri'',
           js_or (prop_of img ''rectified_uri'') Null,
           js_or (prop_of img ''template_id'') Null,
           js_or (prop_of img ''homography'') Null,
           js_or (prop_of img ''blur'') Null,
           js_or (prop_of img ''glare'') Null,
           prop_of img ''created_at''])
       d)"

definition ImagesRepository_findAll :: "db \<Rightarrow> row list" where
  "ImagesRepository_findAll d = select_all (Desc ''created_at'') (d ''images'')"

definition ImagesRepository_findByTemplateId :: "string \<Rightarrow> db \<Rightarrow> row list" where
  "ImagesRepository_findByTemplateId templateId d =
     select_where (\<lambda>r. sql_eq (prop_of r ''template_id'') (Str templateId))
       (Desc ''created_at'') (d ''images'')"

definition ImagesRepository_update_stmt :: "jsobj \<Rightarrow> stmt option" where
  "ImagesRepository_update_stmt img =
     Some (Update ''images''
       [(''uri'', prop_of img ''uri''),
        (''rectified_uri'', js_or (prop_of img ''rectified_uri'') Null),
        (''template_id'', js_or (prop_of img ''template_id'') Null),
        (''homography'', js_or (prop_of img ''homography'') Null),
        (''blur'', js_or (prop_of img ''blur'') Null),
        (''glare'', js_or (prop_of img ''glare'') Null)]
       ''img_id'' (prop_of img ''img_id''))"

definition ImagesRepository_findByDateRange :: "string \<Rightarrow> string \<Rightarrow> db \<Rightarrow> row list" where
  "ImagesRepository_findByDateRange startDate endDate d =
     select_where (\<lambda>r. sql_between (prop_of r ''created_at'') (Str startDate) (Str endDate))
       (Desc ''created_at'') (d ''images'')"

text \<open>
  \<^verbatim>\<open>findWithQualityIssues(blurThreshold?, glareThreshold?)\<close>: one condition for
  each threshold that is not \<^verbatim>\<open>undefined\<close>, joined with \<^verbatim>\<open>OR\<close>; with no
  condition, \<^verbatim>\<open>(blur IS NOT NULL OR glare IS NOT NULL)\<close>.
\<close>

definition ImagesRepository_findWithQualityIssues ::
  "real option \<Rightarrow> real option \<Rightarrow> db \<Rightarrow> row list" where
  "ImagesRepository_findWithQualityIssues blurThreshold glareThreshold d =
     (let conditions =
            (case blurThreshold of
               None \<Rightarrow> []
             | Some b \<Rightarrow> [\<lambda>r. sql_gt (prop_of r ''blur'') (Num b)])
            @ (case glareThreshold of
                 None \<Rightarrow> []
               | Some g \<Rightarrow> [\<lambda>r. sql_gt (prop_of r ''glare'') (Num g)]);
          w = (if length conditions = 0
               then (\<lambda>r. sql_or (sql_is_not_null (prop_of r ''blur''))
                                 (sql_is_not_null (prop_of r ''glare'')))
               else (\<lambda>r. foldr (\<lambda>c acc. sql_or (c r) acc) conditions (Some False)))
      in select_where w (Desc ''created_at'') (d ''images''))"

subsection \<open>RecordsRepository\<close>

definition RecordsRepository_create :: "jsobj \<Rightarrow> db \<Rightarrow> (nat \<times> db) outcome" where
  "RecordsRepository_create rec d =
     executeUpdate
       (Insert ''records''
          [''date'', ''hour'', ''site'', ''form_type'', ''model_code'',
           ''input_L_mm'', ''input_W_mm'', ''input_T_mm'', ''input_count'',
           ''output_L_mm'', ''output_W_mm'', ''output_T_mm'', ''output_count'',
           ''qc_ok'', ''qc_ng'', ''operator_id'', ''batch_no'', ''line_id'',
           ''notes'', ''img_ref'', ''source_img_id'', ''model_version'', ''verified'',
           ''created_at'']
          [js_or (prop_of rec ''date'') Null,
           js_or (prop_of rec ''hour'') Null,
           js_or (prop_of rec ''site'') Null,
           js_or (prop_of rec ''form_type'') Null,
           js_or (prop_of rec ''model_code'') Null,
           js_or (prop_of rec ''input_L_mm'') Null,
           js_or (prop_of rec ''input_W_mm'') Null,
           js_or (prop_of rec ''input_T_mm'') Null,
           js_or (prop_of rec ''input_count'') Null,
           js_or (prop_of rec ''output_L_mm'') Null,
           js_or (prop_of rec ''output_W_mm'') Null,
           js_or (prop_of rec ''output_T_mm'') Null,
           js_or (prop_of rec ''output_count'') Null,
           js_or (prop_of rec ''qc_ok'') Null,
           js_or (prop_of rec ''qc_ng'') Null,
           js_or (prop_of rec ''operator_id'') Null,
           js_or (prop_of rec ''batch_no'') Null,
           js_or (prop_of rec ''line_id'') Null,
           js_or (prop_of rec ''notes'') Null,
           js_or (prop_of rec ''img_ref'') Null,
           js_or (prop_of rec ''source_img_id'') Null,
           js_or (prop_of rec ''model_version'') Null,
           js_or (prop_of rec ''verified'') (Num 0),
           prop_of rec ''created_at''])
       d"

definition RecordsRepository_findAll :: "int option \<Rightarrow> int option \<Rightarrow> db \<Rightarrow> row list" where
  "RecordsRepository_findAll limit offset d =
     limit_offset limit offset (select_all (Desc ''created_at'') (d ''records''))"

definition RecordsRepository_findBySourceImageId :: "string \<Rightarrow> db \<Rightarrow> row list" where
  "RecordsRepository_findBySourceImageId sourceImgId d =
     select_where (\<lambda>r. sql_eq (prop_of r ''source_img_id'') (Str sourceImgId))
       (Desc ''created_at'') (d ''records'')"

definition RecordsRepository_findByOperator :: "string \<Rightarrow> db \<Rightarrow> row list" where
  "RecordsRepository_findByOperator operatorId d =
     select_where (\<lambda>r. sql_eq (prop_of r ''operator_id'') (Str operatorId))
       (Desc ''created_at'') (d ''records'')"

definition RecordsRepository_findByBatchNo :: "string \<Rightarrow> db \<Rightarrow> row list" where
  "RecordsRepository_findByBatchNo batchNo d =
     select_where (\<lambda>r. sql_eq (prop_of r ''batch_no'') (Str batchNo))
       (Desc ''created_at'') (d ''records'')"

definition RecordsRepository_findByDateRange :: "string \<Rightarrow> string \<Rightarrow> db \<Rightarrow> row list" where
  "RecordsRepository_findByDateRange startDate endDate d =
     select_where (\<lambda>r. sql_between (prop_of r ''created_at'') (Str startDate) (Str endDate))
       (Desc ''created_at'') (d ''records'')"

definition RecordsRepository_findUnverified :: "db \<Rightarrow> row list" where
  "RecordsRepository_findUnverified d =
     select_where (\<lambda>r. sql_eq (prop_of r ''verified'') (Num 0))
       (Desc ''created_at'') (d ''records'')"

text \<open>
  \<^verbatim>\<open>update(id, record)\<close> of records and recognition events walks
  \<^verbatim>\<open>Object.entries\<close> and keeps each entry whose key is not \<^verbatim>\<open>id\<close> and whose value
  is not \<^verbatim>\<open>undefined\<close>; with nothing kept it returns before any statement.
\<close>

definition update_fields :: "jsobj \<Rightarrow> (string \<times> jsval) list" where
  "update_fields ob = filter (\<lambda>(key, v). key \<noteq> ''id'' \<and> v \<noteq> Undefined) ob"

definition RecordsRepository_update_stmt :: "real \<Rightarrow> jsobj \<Rightarrow> stmt option" where
  "RecordsRepository_update_stmt rid rec =
     (let fields = update_fields rec
      in if length fields = 0 then None
         else Some (Update ''records'' fields ''id'' (Num rid)))"

text \<open>
  \<^verbatim>\<open>getStatsByDateRange\<close>: an aggregate query without \<^verbatim>\<open>GROUP BY\<close> always returns
  one row, so \<^verbatim>\<open>results[0]\<close> is that row and the fallback object is never used.
\<close>

definition RecordsRepository_getStatsByDateRange :: "string \<Rightarrow> string \<Rightarrow> db \<Rightarrow> row" where
  "RecordsRepository_getStatsByDateRange startDate endDate d =
     (let rs = select_where
                 (\<lambda>r. sql_between (prop_of r ''created_at'') (Str startDate) (Str endDate))
                 Unordered (d ''records'')
      in [(''total_records'', sql_count rs),
          (''verified_records'',
             sql_sum (map (\<lambda>r. case_when (sql_eq (prop_of r ''verified'') (Num 1)) (Num 1) (Num 0)) rs)),
          (''total_qc_ok'', sql_sum (map (\<lambda>r. coalesce (prop_of r ''qc_ok'') (Num 0)) rs)),
          (''total_qc_ng'', sql_sum (map (\<lambda>r. coalesce (prop_of r ''qc_ng'') (Num 0)) rs))])"

subsection \<open>RecogEventsRepository\<close>

text \<open>\<open>now\<close> stands for \<^verbatim>\<open>new Date().toISOString()\<close>.\<close>

definition RecogEventsRepository_create ::
  "string \<Rightarrow> jsobj \<Rightarrow> db \<Rightarrow> (nat \<times> db) outcome" where
  "RecogEventsRepository_create now event d =
     executeUpdate
       (Insert ''recog_events''
          [''img_id'', ''field_id'', ''raw_text'', ''value'', ''conf'', ''corrected'',
           ''created_at'']
          [js_or (prop_of event ''img_id'') Null,
           js_or (prop_of event ''field_id'') Null,
           js_or (prop_of event ''raw_text'') Null,
           js_or (prop_of event ''value'') Null,
           js_or (prop_of event ''conf'') Null,
           js_or (prop_of event ''corrected'') (Num 0),
           js_or (prop_of event ''created_at'') (Str now)])
       d"

definition RecogEventsRepository_findByImageId :: "string \<Rightarrow> db \<Rightarrow> row list" where
  "RecogEventsRepository_findByImageId imgId d =
     select_where (\<lambda>r. sql_eq (prop_of r ''img_id'') (Str imgId))
       (Desc ''created_at'') (d ''recog_events'')"

definition RecogEventsRepository_findByFieldId :: "string \<Rightarrow> db \<Rightarrow> row list" where
  "RecogEventsRepository_findByFieldId fieldId d =
     select_where (\<lambda>r. sql_eq (prop_of r ''field_id'') (Str fieldId))
       (Desc ''created_at'') (d ''recog_events'')"

definition RecogEventsRepository_findAll :: "int option \<Rightarrow> int option \<Rightarrow> db \<Rightarrow> row list" where
  "RecogEventsRepository_findAll limit offset d =
     limit_offset limit offset (select_all (Desc ''created_at'') (d ''recog_events''))"

text \<open>\<^verbatim>\<open>findLowConfidence(threshold = 0.8)\<close>: \<open>None\<close> is the omitted argument.\<close>

definition RecogEventsRepository_findLowConfidence :: "real option \<Rightarrow> db \<Rightarrow> row list" where
  "RecogEventsRepository_findLowConfidence threshold d =
     (let th = (case threshold of None \<Rightarrow> 0.8 | Some x \<Rightarrow> x)
      in select_where (\<lambda>r. sql_lt (prop_of r ''conf'') (Num th)) (Asc ''conf'')
           (d ''recog_events''))"

definition RecogEventsRepository_findCorrected :: "db \<Rightarrow> row list" where
  "RecogEventsRepository_findCorrected d =
     select_where (\<lambda>r. sql_eq (prop_of r ''corrected'') (Num 1))
       (Desc ''created_at'') (d ''recog_events'')"

definition RecogEventsRepository_update_stmt :: "real \<Rightarrow> jsobj \<Rightarrow> stmt option" where
  "RecogEventsRepository_update_stmt rid event =
     (let fields = update_fields event
      in if length fields = 0 then None
         else Some (Update ''recog_events'' fields ''id'' (Num rid)))"

text \<open>
  \<^verbatim>\<open>markAsCorrected(id, correctedValue?)\<close>: the statement and its parameters are
  both chosen by the truthiness of \<^verbatim>\<open>correctedValue\<close>.
\<close>

definition RecogEventsRepository_markAsCorrected ::
  "real \<Rightarrow> jsval \<Rightarrow> db \<Rightarrow> db outcome" where
  "RecogEventsRepository_markAsCorrected rid correctedValue d =
     db_after (executeUpdate
       (if truthy correctedValue
        then Update ''recog_events'' [(''corrected'', Num 1), (''value'', correctedValue)]
               ''id'' (Num rid)
        else Update ''recog_events'' [(''corrected'', Num 1)] ''id'' (Num rid))
       d)"

definition RecogEventsRepository_getConfidenceStats :: "db \<Rightarrow> row" where
  "RecogEventsRepository_getConfidenceStats d =
     (let rs = d ''recog_events''
      in [(''avg_confidence'', sql_avg (map (\<lambda>r. coalesce (prop_of r ''conf'') (Num 0)) rs)),
          (''min_confidence'', sql_min (map (\<lambda>r. coalesce (prop_of r ''conf'') (Num 0)) rs)),
          (''max_confidence'', sql_max (map (\<lambda>r. coalesce (prop_of r ''conf'') (Num 0)) rs)),
          (''total_events'', sql_count rs),
          (''corrected_events'',
             sql_sum (map (\<lambda>r. case_when (sql_eq (prop_of r ''corrected'') (Num 1)) (Num 1) (Num 0)) rs))])"

text \<open>
  A repository's \<^verbatim>\<open>update\<close> hands its statement, if it built one, to
  \<^verbatim>\<open>executeUpdate\<close>.
\<close>

definition run_stmt :: "stmt option \<Rightarrow> db \<Rightarrow> db outcome" where
  "run_stmt s d = (case s of None \<Rightarrow> Return d | Some st \<Rightarrow> db_after (executeUpdate st d))"

subsection \<open>Confidence statistics in memory (utils.ts)\<close>

text \<open>
  \<^verbatim>\<open>calculateConfidenceStats(events)\<close>: the confidences that are neither
  \<^verbatim>\<open>undefined\<close> nor \<^verbatim>\<open>null\<close>; all zeros when there is none.
\<close>

definition calculateConfidenceStats :: "jsobj list \<Rightarrow> jsobj" where
  "calculateConfidenceStats events =
     (let threshold = 0.8;
          confidences = map num (filter (\<lambda>conf. conf \<noteq> Undefined \<and> conf \<noteq> Null)
                                   (map (\<lambda>e. prop_of e ''conf'') events))
      in case confidences of
           [] \<Rightarrow> [(''average'', Num 0), (''minimum'', Num 0), (''maximum'', Num 0),
                  (''belowThreshold'', Num 0), (''threshold'', Num threshold)]
         | c # cs \<Rightarrow>
             [(''average'', Num (foldl (\<lambda>sum conf. sum + conf) 0 confidences
                                / real (length confidences))),
              (''minimum'', Num (fold min cs c)),
              (''maximum'', Num (fold max cs c)),
              (''belowThreshold'',
                 Num (real (length (filter (\<lambda>conf. conf < threshold) confidences)))),
              (''threshold'', Num threshold)])"


section \<open>Orders of results and example data\<close>

text \<open>
  \<open>newest_first\<close>: every row comes before the rows whose \<^verbatim>\<open>created_at\<close> is
  smaller or equal. \<open>ascending_by c\<close>: the values of column \<open>c\<close> never decrease.
\<close>


definition newest_first :: "row list \<Rightarrow> bool" where
  "newest_first rs \<longleftrightarrow>
     sorted_wrt (\<lambda>a b. sql_key (prop_of b ''created_at'') \<le> sql_key (prop_of a ''created_at'')) rs"

definition ascending_by :: "string \<Rightarrow> row list \<Rightarrow> bool" where
  "ascending_by c rs \<longleftrightarrow> sorted (map (\<lambda>r. sql_key (prop_of r c)) rs)"


text \<open>The values of one column down a list of rows.\<close>

definition column_values :: "string \<Rightarrow> row list \<Rightarrow> jsval list" where
  "column_values c rs = map (\<lambda>r. prop_of r c) rs"

text \<open>Small tables on which the queries are run.\<close>


definition example_images :: db where
  "example_images = (\<lambda>_. [])(''images'' :=
     [[(''img_id'', Str ''I1''), (''blur'', Num 0.5), (''glare'', Null),
       (''created_at'', Str ''2024-01-01T00:00:00Z'')],
      [(''img_id'', Str ''I2''), (''blur'', Null), (''glare'', Null),
       (''created_at'', Str ''2024-01-02T00:00:00Z'')],
      [(''img_id'', Str ''I3''), (''blur'', Num 0.1), (''glare'', Num 0.9),
       (''created_at'', Str ''2024-01-03T00:00:00Z'')],
      [(''img_id'', Str ''I4''), (''blur'', Num 0.1), (''glare'', Num 0.1),
       (''created_at'', Str ''2024-01-04T00:00:00Z'')]])"

definition example_events :: db where
  "example_events = (\<lambda>_. [])(''recog_events'' :=
     [[(''id'', Num 1), (''conf'', Num 0.9), (''created_at'', Str ''2024-01-04T00:00:00Z'')],
      [(''id'', Num 2), (''conf'', Null), (''created_at'', Str ''2024-01-03T00:00:00Z'')],
      [(''id'', Num 3), (''conf'', Num 0.4), (''created_at'', Str ''2024-01-02T00:00:00Z'')],
      [(''id'', Num 4), (''conf'', Num 0.2), (''created_at'', Str ''2024-01-01T00:00:00Z'')]])"

text \<open>The optional columns of an image, which its repository binds as \<^verbatim>\<open>value || null\<close>.\<close>

definition images_nullable_columns :: "string list" where
  "images_nullable_columns =
     [''rectified_uri'', ''template_id'', ''homography'', ''blur'', ''glare'']"

text \<open>
  The columns of \<^verbatim>\<open>records\<close> and \<^verbatim>\<open>recog_events\<close> that no constraint is on: an
  update that writes only these is never rejected.
\<close>

definition unconstrained_columns :: "string \<Rightarrow> string list" where
  "unconstrained_columns table =
     filter (\<lambda>c. c \<noteq> primary_key table \<and> c \<notin> set (not_null_columns table)
                 \<and> c \<notin> set (map fst (foreign_keys table)))
       (table_columns table)"

text \<open>
  The values of one column of one table after a call, \<open>None\<close> when the call
  threw.
\<close>

definition column_after :: "string \<Rightarrow> string \<Rightarrow> db outcome \<Rightarrow> jsval list option" where
  "column_after c table result =
     (case result of Throw \<Rightarrow> None | Return d \<Rightarrow> Some (column_values c (d table)))"

text \<open>More example data: two recognition events, and payloads for the mutations.\<close>

definition example_corrections :: db where
  "example_corrections = (\<lambda>_. [])(''recog_events'' :=
     [[(''id'', Num 1), (''img_id'', Str ''I1''), (''field_id'', Str ''qc_ok''),
       (''raw_text'', Str ''7''), (''value'', Str ''7''), (''conf'', Num 0.9),
       (''corrected'', Num 0), (''created_at'', Str ''2024-01-01T00:00:00Z'')],
      [(''id'', Num 2), (''img_id'', Str ''I1''), (''field_id'', Str ''qc_ng''),
       (''raw_text'', Str ''8''), (''value'', Str ''8''), (''conf'', Num 0.4),
       (''corrected'', Num 0), (''created_at'', Str ''2024-01-01T00:00:00Z'')]])"

definition example_image_update :: jsobj where
  "example_image_update =
     [(''img_id'', Str ''I3''), (''uri'', Str ''file:///i3.jpg''), (''glare'', Num 0.5)]"

definition example_event_update :: jsobj where
  "example_event_update = [(''id'', Num 2), (''value'', Str ''3''), (''conf'', Undefined)]"

definition empty_db :: db where
  "empty_db = (\<lambda>table. [])"

definition example_zero_update :: jsobj where
  "example_zero_update = [(''qc_ok'', Num 0), (''notes'', Str [])]"

definition example_blurless_image :: jsobj where
  "example_blurless_image =
     [(''img_id'', Str ''I1''), (''uri'', Str ''file:///i1.jpg''), (''blur'', Num 0),
      (''glare'', Num 0.2), (''created_at'', Str ''2024-01-01T00:00:00Z'')]"

definition example_orphan_update :: jsobj where
  "example_orphan_update = [(''source_img_id'', Str ''missing'')]"

definition example_record :: jsobj where
  "example_record =
     [(''output_count'', Num 10), (''qc_ok'', Num 0), (''qc_ng'', Num 10),
      (''notes'', Str []), (''operator_id'', Str ''op-7''),
      (''created_at'', Str ''2024-01-01T00:00:00Z'')]"

section \<open>Theorems: utilities\<close>

lemma component_score_antimono: "x \<le> y \<Longrightarrow> max 0 (1 - y) \<le> max (0::real) (1 - x)"
  by (simp add: max_def)

lemma calculateImageQuality_eq:
  assumes "Image_typed img"
  shows "calculateImageQuality img =
         min (component_score (prop_of img ''blur'')) (component_score (prop_of img ''glare''))"
  using assms unfolding Image_typed_def calculateImageQuality_def Let_def
  by (cases "prop_of img ''blur''"; cases "prop_of img ''glare''"; simp)

text \<open>
  C4. For an image whose \<^verbatim>\<open>blur\<close> and \<^verbatim>\<open>glare\<close> are numbers or absent,
  \<^verbatim>\<open>calculateImageQuality\<close> is the minimum of the two component scores
  \<open>max 0 (1 - x)\<close>, an absent component scoring 1; it is exactly 1 when both are
  absent; and raising \<^verbatim>\<open>blur\<close> with \<^verbatim>\<open>glare\<close> fixed, or \<^verbatim>\<open>glare\<close> with
  \<^verbatim>\<open>blur\<close> fixed, never raises the score.
\<close>

theorem calculateImageQuality_min_monotone:
  assumes "Image_typed img"
  shows "calculateImageQuality img =
           min (component_score (prop_of img ''blur'')) (component_score (prop_of img ''glare''))
       \<and> (absent (prop_of img ''blur'') \<and> absent (prop_of img ''glare'')
            \<longrightarrow> calculateImageQuality img = 1)
       \<and> (\<forall>img' x y. Image_typed img' \<and> prop_of img ''blur'' = Num x \<and> prop_of img' ''blur'' = Num y
              \<and> x \<le> y \<and> prop_of img' ''glare'' = prop_of img ''glare''
            \<longrightarrow> calculateImageQuality img' \<le> calculateImageQuality img)
       \<and> (\<forall>img' x y. Image_typed img' \<and> prop_of img ''glare'' = Num x \<and> prop_of img' ''glare'' = Num y
              \<and> x \<le> y \<and> prop_of img' ''blur'' = prop_of img ''blur''
            \<longrightarrow> calculateImageQuality img' \<le> calculateImageQuality img)"
proof (intro conjI allI impI)
  show "calculateImageQuality img =
        min (component_score (prop_of img ''blur'')) (component_score (prop_of img ''glare''))"
    by (rule calculateImageQuality_eq [OF assms])
next
  assume "absent (prop_of img ''blur'') \<and> absent (prop_of img ''glare'')"
  then have "\<not> truthy (prop_of img ''blur'')" "\<not> truthy (prop_of img ''glare'')"
    by (cases "prop_of img ''blur''"; cases "prop_of img ''glare''"; simp)+
  then show "calculateImageQuality img = 1"
    by (simp add: calculateImageQuality_def)
next
  fix img' x y
  assume h: "Image_typed img' \<and> prop_of img ''blur'' = Num x \<and> prop_of img' ''blur'' = Num y
              \<and> x \<le> y \<and> prop_of img' ''glare'' = prop_of img ''glare''"
  then have "max 0 (1 - y) \<le> max 0 (1 - x)"
    using component_score_antimono [of x y] by blast
  with h show "calculateImageQuality img' \<le> calculateImageQuality img"
    using calculateImageQuality_eq [OF assms] calculateImageQuality_eq [of img']
    by (simp add: min_le_iff_disj)
next
  fix img' x y
  assume h: "Image_typed img' \<and> prop_of img ''glare'' = Num x \<and> prop_of img' ''glare'' = Num y
              \<and> x \<le> y \<and> prop_of img' ''blur'' = prop_of img ''blur''"
  then have "max 0 (1 - y) \<le> max 0 (1 - x)"
    using component_score_antimono [of x y] by blast
  with h show "calculateImageQuality img' \<le> calculateImageQuality img"
    using calculateImageQuality_eq [OF assms] calculateImageQuality_eq [of img']
    by (simp add: min_le_iff_disj)
qed

theorem calculateImageQuality_min_monotone_witness:
  "Image_typed [(''blur'', Num 0.3), (''glare'', Num 0.1)]
   \<and> calculateImageQuality [(''blur'', Num 0.3), (''glare'', Num 0.1)] = 7 / 10
   \<and> calculateImageQuality [(''blur'', Num 0.5), (''glare'', Num 0.1)]
       \<le> calculateImageQuality [(''blur'', Num 0.3), (''glare'', Num 0.1)]
   \<and> calculateImageQuality [(''blur'', Num 0.3), (''glare'', Num 0.2)]
       \<le> calculateImageQuality [(''blur'', Num 0.3), (''glare'', Num 0.1)]"
proof -
  let ?a = "[(''blur'', Num 0.3), (''glare'', Num 0.1)]"
  let ?b = "[(''blur'', Num 0.5), (''glare'', Num 0.1)]"
  let ?c = "[(''blur'', Num 0.3), (''glare'', Num 0.2)]"
  have ta: "Image_typed ?a"
    by (simp add: Image_typed_def prop_of_def)
  note th = calculateImageQuality_min_monotone [OF ta]
  from th have "calculateImageQuality ?a =
                min (component_score (prop_of ?a ''blur'')) (component_score (prop_of ?a ''glare''))"
    by (rule conjunct1)
  then have v: "calculateImageQuality ?a = 7 / 10"
    by (simp add: prop_of_def)
  have hb: "Image_typed ?b \<and> prop_of ?a ''blur'' = Num 0.3 \<and> prop_of ?b ''blur'' = Num 0.5
            \<and> (0.3::real) \<le> 0.5 \<and> prop_of ?b ''glare'' = prop_of ?a ''glare''"
    by (simp add: Image_typed_def prop_of_def)
  have hc: "Image_typed ?c \<and> prop_of ?a ''glare'' = Num 0.1 \<and> prop_of ?c ''glare'' = Num 0.2
            \<and> (0.1::real) \<le> 0.2 \<and> prop_of ?c ''blur'' = prop_of ?a ''blur''"
    by (simp add: Image_typed_def prop_of_def)
  from th hb have b: "calculateImageQuality ?b \<le> calculateImageQuality ?a"
    by blast
  from th hc have c: "calculateImageQuality ?c \<le> calculateImageQuality ?a"
    by blast
  from ta v b c show ?thesis by blast
qed

text \<open>
  C9. Whatever the engine's \<^verbatim>\<open>JSON.parse\<close> does on a string, \<^verbatim>\<open>parseHomography\<close>
  and \<^verbatim>\<open>parseRoiMap\<close> return and never throw; when the parser throws on the text,
  the result is \<^verbatim>\<open>null\<close>.
\<close>

theorem parse_never_throws:
  "parseHomography JSON_parse s \<noteq> Throw
   \<and> parseRoiMap JSON_parse r \<noteq> Throw
   \<and> (\<forall>str. s = Some str \<and> JSON_parse str = Throw
         \<longrightarrow> parseHomography JSON_parse s = Return JNull)
   \<and> (JSON_parse r = Throw \<longrightarrow> parseRoiMap JSON_parse r = Return JNull)"
  by (auto simp add: parseHomography_def parseRoiMap_def try_catch_def
           split: option.splits outcome.splits)

theorem parse_never_throws_witness:
  "toy_parse ''[[1,0'' = Throw
   \<and> parseHomography toy_parse (Some ''[[1,0'') = Return JNull
   \<and> parseRoiMap toy_parse ''[[1,0'' = Return JNull"
proof -
  have t: "toy_parse ''[[1,0'' = Throw"
    by (simp add: toy_parse_def)
  note th = parse_never_throws [of toy_parse "Some ''[[1,0''" "''[[1,0''"]
  from th t have "parseHomography toy_parse (Some ''[[1,0'') = Return JNull"
    by blast
  moreover from th t have "parseRoiMap toy_parse ''[[1,0'' = Return JNull"
    by blast
  ultimately show ?thesis using t by blast
qed

lemma takeWhile_token:
  assumes "list_all is_number_char t" "closer rest"
  shows "takeWhile is_number_char (t @ rest) = t" "dropWhile is_number_char (t @ rest) = rest"
proof -
  from assms(2) obtain c r where r: "rest = c # r" "\<not> is_number_char c"
    by (cases rest) (auto simp add: closer_def is_number_char_def)
  from assms(1) have all: "\<forall>x \<in> set t. is_number_char x" by (simp add: list_all_iff)
  show "takeWhile is_number_char (t @ rest) = t"
    using all r by (simp add: takeWhile_append2)
  show "dropWhile is_number_char (t @ rest) = rest"
    using all r by (simp add: dropWhile_append2)
qed

lemma parse_element_text:
  assumes "case n of Finite x \<Rightarrow> number_roundtrips number_text parse_number x | _ \<Rightarrow> True"
      and "closer rest"
  shows "parse_element parse_number (number_json_text number_text n @ rest)
         = Some (parsed_number n, rest)"
proof (cases n)
  case (Finite x)
  with assms(1) have rt: "number_text x \<noteq> []" "list_all is_number_char (number_text x)"
    "parse_number (number_text x) = Some x"
    by (simp_all add: number_roundtrips_def)
  from rt(1) obtain c t where ct: "number_text x = c # t" by (cases "number_text x") auto
  with rt(2) have "is_number_char c" by simp
  then have "c \<noteq> CHR ''n''" by (auto simp add: is_number_char_def)
  then have nonull: "take 4 (number_text x @ rest) \<noteq> ''null''"
    by (simp add: ct)
  show ?thesis
    using nonull rt takeWhile_token [OF rt(2) assms(2)]
    by (simp add: parse_element_def Finite Let_def)
qed (simp_all add: parse_element_def)

lemma parse_items_texts:
  assumes "\<forall>x \<in> set xs. \<forall>rest. closer rest \<longrightarrow> item (txt x @ rest) = Some (val x, rest)"
      and "xs \<noteq> []" and "length xs \<le> fuel"
  shows "parse_items item fuel (join_commas (map txt xs) @ CHR '']'' # rest)
         = Some (map val xs, rest)"
  using assms
proof (induction xs arbitrary: fuel)
  case Nil
  then show ?case by simp
next
  case (Cons x xs)
  from Cons.prems(3) obtain k where fuel: "fuel = Suc k" and k: "length xs \<le> k"
    by (cases fuel) auto
  have item: "\<And>rest. closer rest \<Longrightarrow> item (txt x @ rest) = Some (val x, rest)"
    using Cons.prems(1) by simp
  show ?case
  proof (cases xs)
    case Nil
    have "closer (CHR '']'' # rest)" by (simp add: closer_def)
    from item [OF this] show ?thesis
      by (simp add: Nil fuel)
  next
    case (Cons y ys)
    let ?tail = "join_commas (map txt (y # ys)) @ CHR '']'' # rest"
    have "closer (CHR '','' # ?tail)" by (simp add: closer_def)
    from item [OF this]
    have first: "item (txt x @ CHR '','' # ?tail) = Some (val x, CHR '','' # ?tail)" .
    have rec: "parse_items item k ?tail = Some (map val (y # ys), rest)"
      using Cons.IH [of k] Cons.prems(1) k by (simp add: Cons)
    show ?thesis
      using first rec by (simp add: Cons fuel)
  qed
qed

lemma length_join_commas:
  "\<forall>t \<in> set ts. t \<noteq> [] \<Longrightarrow> length ts \<le> length (join_commas ts)"
proof (induction ts rule: join_commas.induct)
  case 1
  show ?case by simp
next
  case (2 t)
  then show ?case by (cases t) simp_all
next
  case (3 t u ts)
  then show ?case by (cases t) simp_all
qed

lemma hd_join_commas: "ts \<noteq> [] \<Longrightarrow> hd ts \<noteq> [] \<Longrightarrow> hd (join_commas ts) = hd (hd ts)"
  by (induction ts rule: join_commas.induct) simp_all

lemma parse_array_texts:
  assumes items: "\<forall>x \<in> set xs. \<forall>rest. closer rest \<longrightarrow> item (txt x @ rest) = Some (val x, rest)"
      and shape: "\<forall>x \<in> set xs. txt x \<noteq> [] \<and> hd (txt x) \<noteq> CHR '']''"
  shows "parse_array item (array_text (map txt xs) @ rest) = Some (JArr (map val xs), rest)"
proof (cases xs)
  case Nil
  then show ?thesis by (simp add: parse_array_def array_text_def)
next
  case (Cons x ys)
  let ?body = "join_commas (map txt xs) @ CHR '']'' # rest"
  have ne: "map txt xs \<noteq> []" "hd (map txt xs) \<noteq> []"
    using shape by (simp_all add: Cons)
  have hd: "hd (join_commas (map txt xs)) \<noteq> CHR '']''"
    using hd_join_commas [OF ne] shape by (simp add: Cons)
  have nonempty: "join_commas (map txt xs) \<noteq> []"
    using length_join_commas [of "map txt xs"] shape by (auto simp add: Cons)
  then obtain c cs where body: "join_commas (map txt xs) = c # cs"
    by (cases "join_commas (map txt xs)") auto
  with hd have c: "c \<noteq> CHR '']''" by simp
  have fuel: "length xs \<le> length ?body"
    using length_join_commas [of "map txt xs"] shape by auto
  have xs: "xs \<noteq> []" by (simp add: Cons)
  note run = parse_items_texts [OF items xs fuel, of rest]
  have whole: "array_text (map txt xs) @ rest = CHR ''['' # ?body"
    by (simp add: array_text_def)
  show ?thesis
    unfolding whole parse_array_def
    using run c by (simp add: body)
qed

lemma number_json_text_shape:
  assumes "case n of Finite x \<Rightarrow> number_roundtrips number_text parse_number x | _ \<Rightarrow> True"
  shows "number_json_text number_text n \<noteq> [] \<and> hd (number_json_text number_text n) \<noteq> CHR '']''"
proof (cases n)
  case (Finite x)
  with assms have rt: "number_text x \<noteq> []" "list_all is_number_char (number_text x)"
    by (simp_all add: number_roundtrips_def)
  from rt(1) obtain c t where ct: "number_text x = c # t" by (cases "number_text x") auto
  with rt(2) have "is_number_char c" by simp
  then have "c \<noteq> CHR '']''" by (auto simp add: is_number_char_def)
  then show ?thesis by (simp add: Finite ct)
qed simp_all

lemma parse_row_text:
  assumes "list_all (\<lambda>n. case n of Finite x \<Rightarrow> number_roundtrips number_text parse_number x
                             | _ \<Rightarrow> True) row"
  shows "parse_array (parse_element parse_number)
           (array_text (map (number_json_text number_text) row) @ rest)
         = Some (JArr (map parsed_number row), rest)"
proof (rule parse_array_texts)
  show "\<forall>n \<in> set row. \<forall>rest. closer rest \<longrightarrow>
          parse_element parse_number (number_json_text number_text n @ rest)
          = Some (parsed_number n, rest)"
    using assms by (auto simp add: list_all_iff intro: parse_element_text)
  show "\<forall>n \<in> set row. number_json_text number_text n \<noteq> []
          \<and> hd (number_json_text number_text n) \<noteq> CHR '']''"
    using assms by (auto simp add: list_all_iff dest: number_json_text_shape)
qed

lemma JSON_parse_stringify_matrix:
  assumes "entries_roundtrip number_text parse_number m"
  shows "JSON_stringify_matrix number_text m = Return s \<Longrightarrow>
         s \<noteq> [] \<and> JSON_parse_matrix parse_number other s
                    = Return (JArr (map (\<lambda>row. JArr (map parsed_number row)) m))"
proof -
  assume "JSON_stringify_matrix number_text m = Return s"
  then have s: "s = array_text (map (\<lambda>r. array_text (map (number_json_text number_text) r)) m)"
    by (simp add: JSON_stringify_matrix_def)
  have "parse_array (parse_array (parse_element parse_number))
          (array_text (map (\<lambda>r. array_text (map (number_json_text number_text) r)) m) @ [])
        = Some (JArr (map (\<lambda>row. JArr (map parsed_number row)) m), [])"
  proof (rule parse_array_texts)
    show "\<forall>row \<in> set m. \<forall>rest. closer rest \<longrightarrow>
            parse_array (parse_element parse_number)
              (array_text (map (number_json_text number_text) row) @ rest)
            = Some (JArr (map parsed_number row), rest)"
      using assms by (auto simp add: entries_roundtrip_def list_all_iff intro!: parse_row_text)
    show "\<forall>row \<in> set m. array_text (map (number_json_text number_text) row) \<noteq> []
            \<and> hd (array_text (map (number_json_text number_text) row)) \<noteq> CHR '']''"
      by (simp add: array_text_def)
  qed
  then show ?thesis
    by (simp add: s JSON_parse_matrix_def) (simp add: array_text_def)
qed

lemma digit_cases:
  "k < 10 \<Longrightarrow> k = 0 \<or> k = 1 \<or> k = 2 \<or> k = 3 \<or> k = 4 \<or> k = 5 \<or> k = 6 \<or> k = 7 \<or> k = 8 \<or> k = (9::nat)"
  by arith

lemma digit_char_digit: "k < 10 \<Longrightarrow> digit_char k \<in> set ''0123456789''"
  unfolding digit_char_def by (rule nth_mem) simp

lemma digit_value_char: "k < 10 \<Longrightarrow> digit_value (digit_char k) = k"
  using digit_cases [of k] by (auto simp add: digit_value_def digit_char_def)

lemma nat_text_digits: "nat_text n \<noteq> [] \<and> list_all (\<lambda>c. c \<in> set ''0123456789'') (nat_text n)"
proof (induction n rule: nat_text.induct)
  case (1 n)
  show ?case
  proof (cases "n < 10")
    case True
    then show ?thesis
      using digit_char_digit [of n] by (simp add: nat_text.simps [of n])
  next
    case False
    then show ?thesis
      using 1 digit_char_digit [of "n mod 10"] by (simp add: nat_text.simps [of n])
  qed
qed

lemma digits_value_nat_text: "digits_value (nat_text n) = n"
proof (induction n rule: nat_text.induct)
  case (1 n)
  show ?case
  proof (cases "n < 10")
    case True
    then show ?thesis
      by (simp add: nat_text.simps [of n] digits_value_def digit_value_char)
  next
    case False
    with 1 have "digits_value (nat_text (n div 10)) = n div 10" by simp
    then show ?thesis
      using False by (simp add: nat_text.simps [of n] digits_value_def digit_value_char)
  qed
qed

lemma digit_is_number_char: "c \<in> set ''0123456789'' \<Longrightarrow> is_number_char c"
  by (auto simp add: is_number_char_def)

lemma example_number_roundtrips:
  "number_roundtrips example_number_text example_parse_number (real n)"
proof -
  have "nat \<lfloor>real n\<rfloor> = n" by simp
  then have t: "example_number_text (real n) = nat_text n"
    unfolding example_number_text_def by simp
  have d: "nat_text n \<noteq> []" "list_all (\<lambda>c. c \<in> set ''0123456789'') (nat_text n)"
    using nat_text_digits [of n] by blast+
  from d(2) have nc: "list_all is_number_char (nat_text n)"
    unfolding list_all_iff using digit_is_number_char by blast
  have p: "example_parse_number (nat_text n) = Some (real n)"
    unfolding example_parse_number_def digits_value_nat_text using d by (simp only: if_True simp_thms)
  show ?thesis
    unfolding number_roundtrips_def t using d(1) nc p by blast
qed

lemma roundtrip_value:
  assumes "entries_roundtrip number_text parse_number m"
  shows "homography_roundtrip (JSON_stringify_matrix number_text)
           (JSON_parse_matrix parse_number other) (Some m)
         = Return (JArr (map (\<lambda>row. JArr (map parsed_number row)) m))"
proof -
  obtain s where s: "JSON_stringify_matrix number_text m = Return s"
    by (simp add: JSON_stringify_matrix_def)
  from JSON_parse_stringify_matrix [OF assms s, of other] s show ?thesis
    by (simp add: homography_roundtrip_def stringifyHomography_def parseHomography_def
                  try_catch_def)
qed

lemma parsed_number_finite: "list_all is_finite row \<Longrightarrow> map parsed_number row = map JNum row"
proof (induction row)
  case Nil
  show ?case by simp
next
  case (Cons n row)
  then show ?case by (cases n) simp_all
qed

lemma example_entries_roundtrip:
  "entries_roundtrip example_number_text example_parse_number identity_homography"
  "entries_roundtrip example_number_text example_parse_number nan_homography"
  using example_number_roundtrips [of 0] example_number_roundtrips [of 1]
  by (simp_all add: entries_roundtrip_def identity_homography_def nan_homography_def)

text \<open>
  C5, as the code has it. With the engine's JSON on matrices and a number
  conversion that reads back the finite entries of \<open>m\<close>,
  \<^verbatim>\<open>parseHomography(stringifyHomography(m))\<close> returns \<open>m\<close> unchanged when every entry
  of \<open>m\<close> is finite, whatever the shape of \<open>m\<close> (empty rows and the empty matrix
  included); in general it returns \<open>m\<close> with each \<^verbatim>\<open>NaN\<close> and infinity replaced by
  \<^verbatim>\<open>null\<close>.
\<close>

theorem homography_roundtrip_finite:
  assumes "entries_roundtrip number_text parse_number m"
  shows "(list_all (list_all is_finite) m
            \<longrightarrow> homography_roundtrip (JSON_stringify_matrix number_text)
                  (JSON_parse_matrix parse_number other) (Some m)
                = Return (matrix_json m))
       \<and> homography_roundtrip (JSON_stringify_matrix number_text)
            (JSON_parse_matrix parse_number other) (Some m)
          = Return (JArr (map (\<lambda>row. JArr (map parsed_number row)) m))"
proof (intro conjI impI)
  show v: "homography_roundtrip (JSON_stringify_matrix number_text)
            (JSON_parse_matrix parse_number other) (Some m)
          = Return (JArr (map (\<lambda>row. JArr (map parsed_number row)) m))"
    by (rule roundtrip_value [OF assms])
  assume "list_all (list_all is_finite) m"
  then have "map (\<lambda>row. JArr (map parsed_number row)) m = map (\<lambda>r. JArr (map JNum r)) m"
    by (induction m) (simp_all add: parsed_number_finite)
  with v show "homography_roundtrip (JSON_stringify_matrix number_text)
                  (JSON_parse_matrix parse_number other) (Some m)
                = Return (matrix_json m)"
    by (simp add: matrix_json_def)
qed

theorem homography_roundtrip_finite_witness:
  "entries_roundtrip example_number_text example_parse_number identity_homography
   \<and> list_all (list_all is_finite) identity_homography
   \<and> homography_roundtrip (JSON_stringify_matrix example_number_text)
        (JSON_parse_matrix example_parse_number JSON_syntax_error) (Some identity_homography)
      = Return (matrix_json identity_homography)"
proof -
  have f: "list_all (list_all is_finite) identity_homography"
    by (simp add: identity_homography_def)
  from homography_roundtrip_finite [OF example_entries_roundtrip(1), of JSON_syntax_error] f
       example_entries_roundtrip(1)
  show ?thesis by blast
qed

text \<open>
  C5 as stated fails on a matrix with \<^verbatim>\<open>NaN\<close> or an infinity: the entry comes
  back as \<^verbatim>\<open>null\<close>.
\<close>

theorem homography_roundtrip_loses_nan:
  "homography_roundtrip (JSON_stringify_matrix example_number_text)
        (JSON_parse_matrix example_parse_number JSON_syntax_error) (Some nan_homography)
      = Return (JArr [JArr [JNum (Finite 1), JNull], JArr [JNull, JNum (Finite 1)]])
   \<and> matrix_json nan_homography
      = JArr [JArr [JNum (Finite 1), JNum NaN], JArr [JNum PosInfinity, JNum (Finite 1)]]
   \<and> homography_roundtrip (JSON_stringify_matrix example_number_text)
        (JSON_parse_matrix example_parse_number JSON_syntax_error) (Some nan_homography)
      \<noteq> Return (matrix_json nan_homography)"
  unfolding roundtrip_value [OF example_entries_roundtrip(2)]
  by (simp add: nan_homography_def matrix_json_def)

text \<open>
  C1. When \<^verbatim>\<open>qc_ok\<close>, \<^verbatim>\<open>qc_ng\<close> and \<^verbatim>\<open>output_count\<close> are all present, the hard
  gate passes exactly when \<^verbatim>\<open>qc_ok + qc_ng\<close> equals \<^verbatim>\<open>output_count\<close>; when one of
  the three is absent, it does not pass.
\<close>

theorem hardGatePassed_iff_sum:
  "(prop_of candidate ''qc_ok'' = Num ok \<and> prop_of candidate ''qc_ng'' = Num ng
      \<and> prop_of candidate ''output_count'' = Num out
      \<longrightarrow> (hardGatePassed candidate \<longleftrightarrow> ok + ng = out))
   \<and> (absent (prop_of candidate ''qc_ok'') \<or> absent (prop_of candidate ''qc_ng'')
      \<or> absent (prop_of candidate ''output_count'')
      \<longrightarrow> \<not> hardGatePassed candidate)"
  by (auto simp add: hardGatePassed_def split: jsval.splits)

theorem hardGatePassed_iff_sum_witness:
  "hardGatePassed [(''output_count'', Num 10), (''qc_ok'', Num 7), (''qc_ng'', Num 3)]
   \<and> \<not> hardGatePassed [(''output_count'', Num 10), (''qc_ok'', Num 7), (''qc_ng'', Num 2)]
   \<and> \<not> hardGatePassed [(''output_count'', Num 10), (''qc_ok'', Num 10)]"
proof -
  let ?a = "[(''output_count'', Num 10), (''qc_ok'', Num 7), (''qc_ng'', Num 3)]"
  let ?b = "[(''output_count'', Num 10), (''qc_ok'', Num 7), (''qc_ng'', Num 2)]"
  let ?c = "[(''output_count'', Num 10), (''qc_ok'', Num 10)]"
  have a: "hardGatePassed ?a"
    using hardGatePassed_iff_sum [of ?a 7 3 10] by (simp add: prop_of_def)
  have b: "\<not> hardGatePassed ?b"
    using hardGatePassed_iff_sum [of ?b 7 2 10] by (simp add: prop_of_def)
  have c: "\<not> hardGatePassed ?c"
    using hardGatePassed_iff_sum [of ?c 10 0 10] by (simp add: prop_of_def)
  from a b c show ?thesis by blast
qed

text \<open>
  \<^verbatim>\<open>validateRecord\<close> itself never compares the three counts: a record with
  \<^verbatim>\<open>qc_ok = 7\<close>, \<^verbatim>\<open>qc_ng = 2\<close> and \<^verbatim>\<open>output_count = 10\<close> gets no message.
\<close>

lemma validateRecord_ignores_sum:
  "validateRecord Number_of_string
     [(''created_at'', Str ''2024-01-01T00:00:00Z''), (''output_count'', Num 10),
      (''qc_ok'', Num 7), (''qc_ng'', Num 2)] = []"
  by (simp add: validateRecord_def numericFields_def prop_of_def)

section \<open>Theorems: queries\<close>

lemma sql_or_true: "sql_or a b = Some True \<longleftrightarrow> a = Some True \<or> b = Some True"
  by (cases "(a, b)" rule: sql_or.cases) auto

lemma sql_gt_number:
  "is_optional_number v \<Longrightarrow> sql_gt v (Num t) = Some True \<longleftrightarrow> \<not> absent v \<and> t < num v"
  by (cases v) (auto simp add: sql_gt_def sql_lt_def)

lemma mset_order_by: "mset (order_by ord rs) = mset rs"
  by (cases ord) simp_all

lemma mset_select_where:
  "mset (select_where w ord rs) = filter_mset (\<lambda>r. w r = Some True) (mset rs)"
  by (simp add: select_where_def mset_order_by)

lemma newest_first_desc: "newest_first (order_by (Desc ''created_at'') rs)"
proof -
  have "sorted (map (\<lambda>r. sql_key (prop_of r ''created_at''))
                 (sort_key (\<lambda>r. sql_key (prop_of r ''created_at'')) rs))"
    by (rule sorted_sort_key)
  then show ?thesis
    by (simp add: newest_first_def sorted_wrt_rev sorted_map)
qed

lemma ascending_by_asc: "ascending_by c (order_by (Asc c) rs)"
  by (simp add: ascending_by_def)

lemma newest_first_select: "newest_first (select_where w (Desc ''created_at'') rs)"
  by (simp only: select_where_def newest_first_desc)

lemma newest_first_limit_offset: "newest_first rs \<Longrightarrow> newest_first (limit_offset limit offset rs)"
  by (auto simp add: newest_first_def limit_offset_def Let_def sorted_wrt_take sorted_wrt_drop
      split: option.splits)

text \<open>
  C6. On a table of images whose \<^verbatim>\<open>blur\<close> and \<^verbatim>\<open>glare\<close> are numbers or
  \<^verbatim>\<open>NULL\<close>, \<^verbatim>\<open>findWithQualityIssues()\<close> without thresholds returns exactly the
  rows where \<^verbatim>\<open>blur\<close> or \<^verbatim>\<open>glare\<close> is not \<^verbatim>\<open>NULL\<close>, and with both thresholds
  exactly the rows whose \<^verbatim>\<open>blur\<close> exceeds the first or whose \<^verbatim>\<open>glare\<close> exceeds
  the second (each row as often as the table holds it).
\<close>

theorem findWithQualityIssues_exact:
  assumes "\<forall>r \<in> set (d ''images''). Image_typed r"
  shows "mset (ImagesRepository_findWithQualityIssues None None d)
           = filter_mset (\<lambda>r. \<not> absent (prop_of r ''blur'') \<or> \<not> absent (prop_of r ''glare''))
               (mset (d ''images''))
       \<and> mset (ImagesRepository_findWithQualityIssues (Some b) (Some g) d)
           = filter_mset (\<lambda>r. (\<not> absent (prop_of r ''blur'') \<and> b < num (prop_of r ''blur''))
                              \<or> (\<not> absent (prop_of r ''glare'') \<and> g < num (prop_of r ''glare'')))
               (mset (d ''images''))"
proof
  show "mset (ImagesRepository_findWithQualityIssues None None d)
           = filter_mset (\<lambda>r. \<not> absent (prop_of r ''blur'') \<or> \<not> absent (prop_of r ''glare''))
               (mset (d ''images''))"
    by (simp add: ImagesRepository_findWithQualityIssues_def mset_select_where sql_or_true
                  sql_is_not_null_def)
next
  have "mset (ImagesRepository_findWithQualityIssues (Some b) (Some g) d)
          = filter_mset (\<lambda>r. sql_gt (prop_of r ''blur'') (Num b) = Some True
                             \<or> sql_gt (prop_of r ''glare'') (Num g) = Some True)
              (mset (d ''images''))"
    by (simp add: ImagesRepository_findWithQualityIssues_def mset_select_where sql_or_true)
  also have "\<dots> = filter_mset (\<lambda>r. (\<not> absent (prop_of r ''blur'') \<and> b < num (prop_of r ''blur''))
                              \<or> (\<not> absent (prop_of r ''glare'') \<and> g < num (prop_of r ''glare'')))
               (mset (d ''images''))"
  proof (rule filter_mset_cong [OF refl])
    fix r assume "r \<in># mset (d ''images'')"
    with assms have "Image_typed r" by simp
    then show "(sql_gt (prop_of r ''blur'') (Num b) = Some True
                 \<or> sql_gt (prop_of r ''glare'') (Num g) = Some True)
             = ((\<not> absent (prop_of r ''blur'') \<and> b < num (prop_of r ''blur''))
                 \<or> (\<not> absent (prop_of r ''glare'') \<and> g < num (prop_of r ''glare'')))"
      by (simp add: Image_typed_def sql_gt_number)
  qed
  finally show "mset (ImagesRepository_findWithQualityIssues (Some b) (Some g) d)
           = filter_mset (\<lambda>r. (\<not> absent (prop_of r ''blur'') \<and> b < num (prop_of r ''blur''))
                              \<or> (\<not> absent (prop_of r ''glare'') \<and> g < num (prop_of r ''glare'')))
               (mset (d ''images''))" .
qed

theorem findWithQualityIssues_exact_witness:
  "list_all Image_typed (example_images ''images'')
   \<and> mset (column_values ''img_id''
        (ImagesRepository_findWithQualityIssues None None example_images))
       = {#Str ''I1'', Str ''I3'', Str ''I4''#}
   \<and> mset (column_values ''img_id''
        (ImagesRepository_findWithQualityIssues (Some 0.3) (Some 0.3) example_images))
       = {#Str ''I1'', Str ''I3''#}"
proof -
  have h: "\<forall>r \<in> set (example_images ''images''). Image_typed r"
    by (simp add: example_images_def Image_typed_def prop_of_def)
  note th = findWithQualityIssues_exact [of example_images "0.3" "0.3", OF h]
  have a: "mset (column_values ''img_id''
        (ImagesRepository_findWithQualityIssues None None example_images))
       = {#Str ''I1'', Str ''I3'', Str ''I4''#}"
    unfolding column_values_def mset_map conjunct1 [OF th] by (simp add: example_images_def prop_of_def)
  have b: "mset (column_values ''img_id''
        (ImagesRepository_findWithQualityIssues (Some 0.3) (Some 0.3) example_images))
       = {#Str ''I1'', Str ''I3''#}"
    unfolding column_values_def mset_map conjunct2 [OF th] by (simp add: example_images_def prop_of_def)
  from h a b show ?thesis by (simp add: list_all_iff)
qed

text \<open>
  C7, as the code has it. \<^verbatim>\<open>findAll\<close> returns templates by ascending
  \<^verbatim>\<open>template_id\<close> and images, records and recognition events newest first, with or
  without \<^verbatim>\<open>LIMIT\<close> and \<^verbatim>\<open>OFFSET\<close>; the finders by template, source image,
  image, field, operator, batch, date range, quality, and by verified or corrected
  flag return their rows newest first; \<^verbatim>\<open>findLowConfidence\<close> returns its rows by
  ascending \<^verbatim>\<open>conf\<close>.
\<close>

theorem finders_order:
  "ascending_by ''template_id'' (TemplatesRepository_findAll d)
   \<and> newest_first (ImagesRepository_findAll d)
   \<and> newest_first (RecordsRepository_findAll limit offset d)
   \<and> newest_first (RecogEventsRepository_findAll limit offset d)
   \<and> newest_first (ImagesRepository_findByTemplateId templateId d)
   \<and> newest_first (ImagesRepository_findByDateRange startDate endDate d)
   \<and> newest_first (ImagesRepository_findWithQualityIssues blurThreshold glareThreshold d)
   \<and> newest_first (RecordsRepository_findBySourceImageId sourceImgId d)
   \<and> newest_first (RecordsRepository_findByOperator operatorId d)
   \<and> newest_first (RecordsRepository_findByBatchNo batchNo d)
   \<and> newest_first (RecordsRepository_findByDateRange startDate endDate d)
   \<and> newest_first (RecordsRepository_findUnverified d)
   \<and> newest_first (RecogEventsRepository_findByImageId imgId d)
   \<and> newest_first (RecogEventsRepository_findByFieldId fieldId d)
   \<and> newest_first (RecogEventsRepository_findCorrected d)
   \<and> ascending_by ''conf'' (RecogEventsRepository_findLowConfidence threshold d)"
proof (intro conjI)
  show "ascending_by ''template_id'' (TemplatesRepository_findAll d)"
    by (simp only: TemplatesRepository_findAll_def select_all_def ascending_by_asc)
  show "newest_first (ImagesRepository_findAll d)"
    by (simp only: ImagesRepository_findAll_def select_all_def newest_first_desc)
  show "newest_first (RecordsRepository_findAll limit offset d)"
    by (simp only: RecordsRepository_findAll_def select_all_def newest_first_desc
                   newest_first_limit_offset)
  show "newest_first (RecogEventsRepository_findAll limit offset d)"
    by (simp only: RecogEventsRepository_findAll_def select_all_def newest_first_desc
                   newest_first_limit_offset)
  show "newest_first (ImagesRepository_findByTemplateId templateId d)"
    by (simp only: ImagesRepository_findByTemplateId_def newest_first_select)
  show "newest_first (ImagesRepository_findByDateRange startDate endDate d)"
    by (simp only: ImagesRepository_findByDateRange_def newest_first_select)
  show "newest_first (ImagesRepository_findWithQualityIssues blurThreshold glareThreshold d)"
    by (simp only: ImagesRepository_findWithQualityIssues_def Let_def newest_first_select)
  show "newest_first (RecordsRepository_findBySourceImageId sourceImgId d)"
    by (simp only: RecordsRepository_findBySourceImageId_def newest_first_select)
  show "newest_first (RecordsRepository_findByOperator operatorId d)"
    by (simp only: RecordsRepository_findByOperator_def newest_first_select)
  show "newest_first (RecordsRepository_findByBatchNo batchNo d)"
    by (simp only: RecordsRepository_findByBatchNo_def newest_first_select)
  show "newest_first (RecordsRepository_findByDateRange startDate endDate d)"
    by (simp only: RecordsRepository_findByDateRange_def newest_first_select)
  show "newest_first (RecordsRepository_findUnverified d)"
    by (simp only: RecordsRepository_findUnverified_def newest_first_select)
  show "newest_first (RecogEventsRepository_findByImageId imgId d)"
    by (simp only: RecogEventsRepository_findByImageId_def newest_first_select)
  show "newest_first (RecogEventsRepository_findByFieldId fieldId d)"
    by (simp only: RecogEventsRepository_findByFieldId_def newest_first_select)
  show "newest_first (RecogEventsRepository_findCorrected d)"
    by (simp only: RecogEventsRepository_findCorrected_def newest_first_select)
  show "ascending_by ''conf'' (RecogEventsRepository_findLowConfidence threshold d)"
    by (simp only: RecogEventsRepository_findLowConfidence_def Let_def select_where_def
                   ascending_by_asc)
qed

text \<open>
  C7 as stated fails: of two low-confidence events, \<^verbatim>\<open>findLowConfidence\<close> returns
  the older one first when its confidence is the lower, where \<^verbatim>\<open>findAll\<close>,
  filtered, has the newer one first.
\<close>

theorem findLowConfidence_not_newest_first:
  "\<not> newest_first (RecogEventsRepository_findLowConfidence None example_events)
   \<and> column_values ''id'' (RecogEventsRepository_findLowConfidence None example_events)
       = [Num 4, Num 3]
   \<and> column_values ''created_at'' (RecogEventsRepository_findLowConfidence None example_events)
       = [Str ''2024-01-01T00:00:00Z'', Str ''2024-01-02T00:00:00Z'']
   \<and> column_values ''id'' (RecogEventsRepository_findAll None None example_events)
       = [Num 1, Num 2, Num 3, Num 4]"
  by (simp add: RecogEventsRepository_findLowConfidence_def RecogEventsRepository_findAll_def
       example_events_def select_where_def select_all_def limit_offset_def newest_first_def
       column_values_def prop_of_def sql_lt_def)

text \<open>
  C3 at the events with confidences 0.9, \<^verbatim>\<open>NULL\<close>, 0.4, 0.2:
  \<^verbatim>\<open>getConfidenceStats\<close> averages \<^verbatim>\<open>COALESCE(conf, 0)\<close>, so the \<^verbatim>\<open>NULL\<close> counts
  as a zero among four values, and the minimum is that zero;
  \<^verbatim>\<open>calculateConfidenceStats\<close> of \<^verbatim>\<open>utils.ts\<close> on the same events leaves it out.
\<close>

theorem getConfidenceStats_counts_null_as_zero:
  "column_values ''conf'' (example_events ''recog_events'')
     = [Num 0.9, Null, Num 0.4, Num 0.2]
   \<and> prop_of (RecogEventsRepository_getConfidenceStats example_events) ''avg_confidence''
       = Num ((0.9 + 0 + 0.4 + 0.2) / 4)
   \<and> prop_of (RecogEventsRepository_getConfidenceStats example_events) ''avg_confidence''
       \<noteq> Num ((0.9 + 0.4 + 0.2) / 3)
   \<and> prop_of (RecogEventsRepository_getConfidenceStats example_events) ''min_confidence''
       = Num 0
   \<and> prop_of (RecogEventsRepository_getConfidenceStats example_events) ''total_events''
       = Num 4
   \<and> prop_of (calculateConfidenceStats (example_events ''recog_events'')) ''average''
       = Num ((0.9 + 0.4 + 0.2) / 3)
   \<and> prop_of (calculateConfidenceStats (example_events ''recog_events'')) ''minimum''
       = Num 0.2"
  by (simp add: RecogEventsRepository_getConfidenceStats_def calculateConfidenceStats_def
      example_events_def prop_of_def sql_avg_def sql_min_def sql_count_def non_null_def
      coalesce_def column_values_def Let_def)

section \<open>Theorems: mutations\<close>

lemma sql_eq_Num: "sql_eq v (Num x) = Some True \<longleftrightarrow> v = Num x"
  by (cases v) (simp_all add: sql_eq_def)

lemma prop_of_update: "prop_of (AList.update k v r) c = (if c = k then v else prop_of r c)"
  by (simp add: prop_of_def update_conv')

lemma prop_of_set_columns:
  "prop_of (set_columns sets r) c = (case map_of (rev sets) c of Some v \<Rightarrow> v | None \<Rightarrow> prop_of r c)"
proof (induction sets arbitrary: r)
  case Nil
  show ?case by (simp add: set_columns_def)
next
  case (Cons kv sets)
  obtain k v where kv: "kv = (k, v)" by (cases kv)
  have step: "set_columns (kv # sets) r = set_columns sets (AList.update k v r)"
    by (simp add: set_columns_def kv)
  show ?case
    unfolding step Cons.IH
    by (simp add: kv prop_of_update map_add_def split: option.splits)
qed

lemma list_all2_map_same: "list_all2 R xs (map f xs) \<longleftrightarrow> (\<forall>x \<in> set xs. R x (f x))"
  by (simp add: list_all2_map2 list_all2_same)

lemma map_of_filter_distinct:
  "distinct (map fst xs) \<Longrightarrow>
   map_of (filter P xs) k =
     (case map_of xs k of Some v \<Rightarrow> if P (k, v) then Some v else None | None \<Rightarrow> None)"
proof (induction xs)
  case Nil
  show ?case by simp
next
  case (Cons kv xs)
  obtain a b where kv: "kv = (a, b)" by (cases kv)
  from Cons.prems have notin: "a \<notin> fst ` set xs" and dist: "distinct (map fst xs)"
    by (simp_all add: kv)
  from notin have none: "map_of xs a = None"
    by (simp add: map_of_eq_None_iff)
  note IH = Cons.IH [OF dist]
  show ?case
  proof (cases "k = a")
    case True
    then show ?thesis using IH none by (simp add: kv)
  next
    case False
    then show ?thesis using IH by (simp add: kv)
  qed
qed

lemma prop_of_set_columns_distinct:
  "distinct (map fst sets) \<Longrightarrow>
   prop_of (set_columns sets r) c = (case map_of sets c of Some v \<Rightarrow> v | None \<Rightarrow> prop_of r c)"
proof (induction sets arbitrary: r)
  case Nil
  show ?case by (simp add: set_columns_def)
next
  case (Cons kv sets)
  obtain k v where kv: "kv = (k, v)" by (cases kv)
  from Cons.prems have notin: "k \<notin> fst ` set sets" and dist: "distinct (map fst sets)"
    by (simp_all add: kv)
  from notin have none: "map_of sets k = None"
    by (simp add: map_of_eq_None_iff)
  have step: "set_columns (kv # sets) r = set_columns sets (AList.update k v r)"
    by (simp add: set_columns_def kv)
  show ?case
  proof (cases "c = k")
    case True
    then show ?thesis
      unfolding step Cons.IH [OF dist] by (simp add: kv none prop_of_update)
  next
    case False
    then show ?thesis
      unfolding step Cons.IH [OF dist] by (simp add: kv prop_of_update split: option.splits)
  qed
qed

lemma update_fields_distinct: "distinct (map fst payload) \<Longrightarrow> distinct (map fst (update_fields payload))"
  by (simp add: update_fields_def distinct_map_filter)

lemma map_of_update_fields:
  assumes "distinct (map fst payload)"
  shows "map_of (update_fields payload) c =
         (if c \<noteq> ''id'' \<and> prop_of payload c \<noteq> Undefined then Some (prop_of payload c) else None)"
  unfolding update_fields_def map_of_filter_distinct [OF assms]
  by (simp add: prop_of_def split: option.splits)

lemma update_fields_empty:
  "(update_fields payload = []) \<longleftrightarrow> (\<forall>(k, v) \<in> set payload. k = ''id'' \<or> v = Undefined)"
  by (auto simp add: update_fields_def filter_empty_conv)

lemma updated_column:
  assumes "distinct (map fst payload)"
  shows "prop_of (set_columns (update_fields payload) r) c =
           (if c \<noteq> ''id'' \<and> prop_of payload c \<noteq> Undefined then prop_of payload c
            else prop_of r c)"
  unfolding prop_of_set_columns_distinct [OF update_fields_distinct [OF assms]]
            map_of_update_fields [OF assms]
  by simp

lemma update_accepted_result:
  assumes "executeUpdate (Update table sets key_column key) d = Return (n, d')"
  shows "d' = d(table := map (\<lambda>r. if sql_eq (prop_of r key_column) key = Some True
                                     then set_columns sets r else r) (d table))"
  using assms by (simp add: Let_def split: if_splits)

lemma markAsCorrected_result:
  "RecogEventsRepository_markAsCorrected rid correctedValue d =
     Return (d(''recog_events'' :=
       map (\<lambda>r. if prop_of r ''id'' = Num rid
                 then set_columns
                        (if truthy correctedValue
                         then [(''corrected'', Num 1), (''value'', correctedValue)]
                         else [(''corrected'', Num 1)]) r
                 else r) (d ''recog_events'')))"
  by (simp add: RecogEventsRepository_markAsCorrected_def db_after_def Let_def
        table_columns_def row_accepted_def key_accepted_def not_null_columns_def
        foreign_keys_def primary_key_def sql_eq_Num list_all_iff)

lemma prop_of_Cons:
  "prop_of ((k, v) # ob) c = (if k = c then v else prop_of ob c)"
  by (simp add: prop_of_def)

lemma prop_of_Nil: "prop_of [] c = Undefined"
  by (simp add: prop_of_def)

lemma markAsCorrected_values:
  "column_after ''corrected'' ''recog_events''
       (RecogEventsRepository_markAsCorrected 2 (Str []) example_corrections)
     = Some [Num 0, Num 1]
   \<and> column_after ''value'' ''recog_events''
       (RecogEventsRepository_markAsCorrected 2 (Str []) example_corrections)
     = Some [Str ''7'', Str ''8'']
   \<and> column_after ''value'' ''recog_events''
       (RecogEventsRepository_markAsCorrected 2 (Str ''3'') example_corrections)
     = Some [Str ''7'', Str ''3'']
   \<and> column_after ''conf'' ''recog_events''
       (RecogEventsRepository_markAsCorrected 2 (Str ''3'') example_corrections)
     = Some [Num 0.9, Num 0.4]"
  unfolding markAsCorrected_result
  by (simp add: column_after_def example_corrections_def column_values_def prop_of_def
        set_columns_def)

text \<open>
  C10. \<^verbatim>\<open>markAsCorrected(id, correctedValue)\<close> is never rejected: its statement
  writes only \<^verbatim>\<open>corrected\<close> and \<^verbatim>\<open>value\<close>, which carry no constraint. After it
  every event row with that id has \<^verbatim>\<open>corrected = 1\<close>; its \<^verbatim>\<open>value\<close> is
  \<^verbatim>\<open>correctedValue\<close> when that is a non-empty string and is unchanged otherwise;
  every other column of the row, every other row and every other table are
  unchanged. The empty string does what the omitted argument does.
\<close>

theorem markAsCorrected_frame:
  "(case RecogEventsRepository_markAsCorrected rid correctedValue d of
      Throw \<Rightarrow> False
    | Return d' \<Rightarrow>
        list_all2
          (\<lambda>r r'. if prop_of r ''id'' = Num rid
                   then prop_of r' ''corrected'' = Num 1
                        \<and> prop_of r' ''value''
                            = (if truthy correctedValue then correctedValue
                               else prop_of r ''value'')
                        \<and> (\<forall>c. c \<noteq> ''corrected'' \<and> c \<noteq> ''value''
                              \<longrightarrow> prop_of r' c = prop_of r c)
                   else r' = r)
          (d ''recog_events'') (d' ''recog_events'')
        \<and> (\<forall>t. t \<noteq> ''recog_events'' \<longrightarrow> d' t = d t))
   \<and> RecogEventsRepository_markAsCorrected rid (Str []) d
       = RecogEventsRepository_markAsCorrected rid Undefined d"
proof (intro conjI)
  show "case RecogEventsRepository_markAsCorrected rid correctedValue d of
      Throw \<Rightarrow> False
    | Return d' \<Rightarrow>
        list_all2
          (\<lambda>r r'. if prop_of r ''id'' = Num rid
                   then prop_of r' ''corrected'' = Num 1
                        \<and> prop_of r' ''value''
                            = (if truthy correctedValue then correctedValue
                               else prop_of r ''value'')
                        \<and> (\<forall>c. c \<noteq> ''corrected'' \<and> c \<noteq> ''value''
                              \<longrightarrow> prop_of r' c = prop_of r c)
                   else r' = r)
          (d ''recog_events'') (d' ''recog_events'')
        \<and> (\<forall>t. t \<noteq> ''recog_events'' \<longrightarrow> d' t = d t)"
    unfolding markAsCorrected_result
    by (simp add: list_all2_map_same prop_of_set_columns)
  show "RecogEventsRepository_markAsCorrected rid (Str []) d
       = RecogEventsRepository_markAsCorrected rid Undefined d"
    unfolding markAsCorrected_result by simp
qed

theorem markAsCorrected_frame_witness:
  "RecogEventsRepository_markAsCorrected 2 (Str []) example_corrections
     = RecogEventsRepository_markAsCorrected 2 Undefined example_corrections
   \<and> column_after ''corrected'' ''recog_events''
       (RecogEventsRepository_markAsCorrected 2 (Str []) example_corrections)
     = Some [Num 0, Num 1]
   \<and> column_after ''value'' ''recog_events''
       (RecogEventsRepository_markAsCorrected 2 (Str []) example_corrections)
     = Some [Str ''7'', Str ''8'']
   \<and> column_after ''value'' ''recog_events''
       (RecogEventsRepository_markAsCorrected 2 (Str ''3'') example_corrections)
     = Some [Str ''7'', Str ''3'']
   \<and> column_after ''conf'' ''recog_events''
       (RecogEventsRepository_markAsCorrected 2 (Str ''3'') example_corrections)
     = Some [Num 0.9, Num 0.4]"
proof -
  have "RecogEventsRepository_markAsCorrected 2 (Str []) example_corrections
     = RecogEventsRepository_markAsCorrected 2 Undefined example_corrections"
    using markAsCorrected_frame [of 2 "Str []" example_corrections] by (elim conjE)
  with markAsCorrected_values show ?thesis by (intro conjI) (elim conjE, assumption)+
qed

text \<open>
  An update that the engine accepts maps the addressed rows through its
  \<^verbatim>\<open>SET\<close> list and leaves everything else as it was; an update that writes only
  columns without a constraint is accepted.
\<close>

lemma run_stmt_Update_result:
  assumes "run_stmt (Some (Update table sets key_column key)) d = Return d'"
  shows "d' = d(table := map (\<lambda>r. if sql_eq (prop_of r key_column) key = Some True
                                     then set_columns sets r else r) (d table))"
proof -
  from assms obtain n where "executeUpdate (Update table sets key_column key) d = Return (n, d')"
    by (auto simp add: run_stmt_def db_after_def split: outcome.splits)
  then show ?thesis by (rule update_accepted_result)
qed

lemma partial_update_frame:
  assumes "distinct (map fst payload)"
      and "run_stmt (let fields = update_fields payload
                     in if length fields = 0 then None
                        else Some (Update table fields ''id'' (Num rid))) d = Return d'"
  shows "list_all2
     (\<lambda>r r'. if prop_of r ''id'' = Num rid
              then (\<forall>c. prop_of r' c =
                      (if c \<noteq> ''id'' \<and> prop_of payload c \<noteq> Undefined
                       then prop_of payload c else prop_of r c))
              else r' = r)
     (d table) (d' table)
   \<and> (\<forall>t. t \<noteq> table \<longrightarrow> d' t = d t)"
proof (cases "update_fields payload = []")
  case True
  have none: "\<And>c. map_of (update_fields payload) c = None"
    by (simp add: True)
  have "\<And>c. \<not> (c \<noteq> ''id'' \<and> prop_of payload c \<noteq> Undefined)"
  proof
    fix c assume "c \<noteq> ''id'' \<and> prop_of payload c \<noteq> Undefined"
    with map_of_update_fields [OF assms(1), of c]
    have "map_of (update_fields payload) c = Some (prop_of payload c)" by simp
    with none [of c] show False by simp
  qed
  then have same: "\<And>r c. (if c \<noteq> ''id'' \<and> prop_of payload c \<noteq> Undefined
                       then prop_of payload c else prop_of r c) = prop_of r c"
    by (metis (full_types))
  from assms(2) True have "d' = d"
    by (simp add: run_stmt_def)
  then show ?thesis
    unfolding same by (simp add: list_all2_same)
next
  case False
  with assms(2) have "run_stmt (Some (Update table (update_fields payload) ''id'' (Num rid))) d
                      = Return d'"
    by (simp add: Let_def)
  from run_stmt_Update_result [OF this]
  have d': "d' = d(table := map (\<lambda>r. if prop_of r ''id'' = Num rid
                          then set_columns (update_fields payload) r else r) (d table))"
    by (simp add: sql_eq_Num)
  show ?thesis
    unfolding d' by (simp add: list_all2_map_same updated_column [OF assms(1)])
qed

lemma unconstrained_subset:
  assumes "set written \<subseteq> set (unconstrained_columns table)"
  shows "list_all (\<lambda>c. c \<in> set (table_columns table)) written"
    and "primary_key table \<notin> set written"
    and "\<And>d r. row_accepted d table written r"
proof -
  show "list_all (\<lambda>c. c \<in> set (table_columns table)) written"
    using assms by (auto simp add: list_all_iff unconstrained_columns_def)
  show "primary_key table \<notin> set written"
    using assms by (auto simp add: unconstrained_columns_def)
  fix d r
  have nn: "\<And>c. c \<in> set (not_null_columns table) \<Longrightarrow> c \<notin> set written"
    using assms by (auto simp add: unconstrained_columns_def)
  have fk: "\<And>c p k. (c, p, k) \<in> set (foreign_keys table) \<Longrightarrow> c \<notin> set written"
    using assms by (force simp add: unconstrained_columns_def)
  show "row_accepted d table written r"
    unfolding row_accepted_def list_all_iff using nn fk by auto
qed

lemma partial_update_accepted:
  assumes "set (map fst (update_fields payload)) \<subseteq> set (unconstrained_columns table)"
      and "''id'' \<in> set (table_columns table)"
  shows "run_stmt (let fields = update_fields payload
                   in if length fields = 0 then None
                      else Some (Update table fields ''id'' (Num rid))) d \<noteq> Throw"
proof (cases "update_fields payload = []")
  case True
  then show ?thesis by (simp add: run_stmt_def)
next
  case False
  note u = unconstrained_subset [OF assms(1)]
  have "key_accepted d table (map fst (update_fields payload)) rows r r'" for rows r r'
    using u(2) by (simp add: key_accepted_def)
  then show ?thesis
    using False u(1) u(3) assms(2)
    by (simp add: run_stmt_def db_after_def Let_def list_all_iff)
qed

lemma images_update_frame:
  assumes "run_stmt (ImagesRepository_update_stmt payload) d = Return d'"
  shows "list_all2
     (\<lambda>r r'. if sql_eq (prop_of r ''img_id'') (prop_of payload ''img_id'') = Some True
              then prop_of r' ''uri'' = prop_of payload ''uri''
                   \<and> (\<forall>c \<in> set images_nullable_columns.
                         prop_of r' c = js_or (prop_of payload c) Null)
                   \<and> (\<forall>c. c \<noteq> ''uri'' \<and> c \<notin> set images_nullable_columns
                         \<longrightarrow> prop_of r' c = prop_of r c)
              else r' = r)
     (d ''images'') (d' ''images'')
   \<and> (\<forall>t. t \<noteq> ''images'' \<longrightarrow> d' t = d t)"
  unfolding run_stmt_Update_result [OF assms [unfolded ImagesRepository_update_stmt_def]]
  by (simp add: list_all2_map_same prop_of_set_columns images_nullable_columns_def)

lemma templates_update_frame:
  assumes "run_stmt (TemplatesRepository_update_stmt payload) d = Return d'"
  shows "list_all2
     (\<lambda>r r'. if sql_eq (prop_of r ''template_id'') (prop_of payload ''template_id'') = Some True
              then prop_of r' ''version'' = prop_of payload ''version''
                   \<and> prop_of r' ''roi_map_json'' = prop_of payload ''roi_map_json''
                   \<and> (\<forall>c. c \<noteq> ''version'' \<and> c \<noteq> ''roi_map_json''
                         \<longrightarrow> prop_of r' c = prop_of r c)
              else r' = r)
     (d ''templates'') (d' ''templates'')
   \<and> (\<forall>t. t \<noteq> ''templates'' \<longrightarrow> d' t = d t)"
  unfolding run_stmt_Update_result [OF assms [unfolded TemplatesRepository_update_stmt_def]]
  by (simp add: list_all2_map_same prop_of_set_columns)

lemma update_values:
  "column_after ''value'' ''recog_events''
      (run_stmt (RecogEventsRepository_update_stmt 2 example_event_update) example_corrections)
     = Some [Str ''7'', Str ''3'']
   \<and> column_after ''conf'' ''recog_events''
      (run_stmt (RecogEventsRepository_update_stmt 2 example_event_update) example_corrections)
     = Some [Num 0.9, Num 0.4]
   \<and> column_after ''id'' ''recog_events''
      (run_stmt (RecogEventsRepository_update_stmt 2 example_event_update) example_corrections)
     = Some [Num 1, Num 2]"
  by (simp add: RecogEventsRepository_update_stmt_def run_stmt_def db_after_def
        update_fields_def example_event_update_def example_corrections_def column_after_def
        column_values_def prop_of_def set_columns_def sql_eq_def table_columns_def
        row_accepted_def key_accepted_def not_null_columns_def foreign_keys_def primary_key_def)

text \<open>
  C8, as the code has it. A statement that the engine rejects makes \<^verbatim>\<open>update\<close>
  throw, and nothing is written; the effects below are those of an accepted
  statement. For a payload with distinct keys (any object):
  \<^verbatim>\<open>RecordsRepository.update\<close> and \<^verbatim>\<open>RecogEventsRepository.update\<close> issue no
  statement when every entry has key \<^verbatim>\<open>id\<close> or value \<^verbatim>\<open>undefined\<close>; otherwise, in
  the rows with the given id, each column named by an entry other than \<^verbatim>\<open>id\<close>
  whose value is not \<^verbatim>\<open>undefined\<close> takes that value and every other column is
  unchanged; other rows and other tables are unchanged; and the statement is
  accepted whenever the entries name only columns without a constraint.
  \<^verbatim>\<open>ImagesRepository.update\<close> and \<^verbatim>\<open>TemplatesRepository.update\<close> take the whole
  entity and always issue a statement: in the rows with the entity's key,
  \<^verbatim>\<open>uri\<close> (\<^verbatim>\<open>version\<close>, \<^verbatim>\<open>roi_map_json\<close>) is overwritten with the payload's
  property, each optional image column is overwritten with \<^verbatim>\<open>NULL\<close> when the
  payload omits it and with the payload's value when that is truthy, and the
  remaining columns are unchanged.
\<close>

theorem update_partial_or_full:
  assumes "distinct (map fst payload)"
  shows
   "((\<forall>(k, v) \<in> set payload. k = ''id'' \<or> v = Undefined)
       \<longrightarrow> RecordsRepository_update_stmt rid payload = None
           \<and> RecogEventsRepository_update_stmt rid payload = None)
    \<and> (case run_stmt (RecordsRepository_update_stmt rid payload) d of
          Throw \<Rightarrow> True
        | Return d' \<Rightarrow>
            list_all2
              (\<lambda>r r'. if prop_of r ''id'' = Num rid
                       then (\<forall>c. prop_of r' c =
                               (if c \<noteq> ''id'' \<and> prop_of payload c \<noteq> Undefined
                                then prop_of payload c else prop_of r c))
                       else r' = r)
              (d ''records'') (d' ''records'')
            \<and> (\<forall>t. t \<noteq> ''records'' \<longrightarrow> d' t = d t))
    \<and> (set (map fst (update_fields payload)) \<subseteq> set (unconstrained_columns ''records'')
          \<longrightarrow> run_stmt (RecordsRepository_update_stmt rid payload) d \<noteq> Throw)
    \<and> (case run_stmt (RecogEventsRepository_update_stmt rid payload) d of
          Throw \<Rightarrow> True
        | Return d' \<Rightarrow>
            list_all2
              (\<lambda>r r'. if prop_of r ''id'' = Num rid
                       then (\<forall>c. prop_of r' c =
                               (if c \<noteq> ''id'' \<and> prop_of payload c \<noteq> Undefined
                                then prop_of payload c else prop_of r c))
                       else r' = r)
              (d ''recog_events'') (d' ''recog_events'')
            \<and> (\<forall>t. t \<noteq> ''recog_events'' \<longrightarrow> d' t = d t))
    \<and> (set (map fst (update_fields payload)) \<subseteq> set (unconstrained_columns ''recog_events'')
          \<longrightarrow> run_stmt (RecogEventsRepository_update_stmt rid payload) d \<noteq> Throw)
    \<and> ImagesRepository_update_stmt payload \<noteq> None
    \<and> (case run_stmt (ImagesRepository_update_stmt payload) d of
          Throw \<Rightarrow> True
        | Return d' \<Rightarrow>
            list_all2
              (\<lambda>r r'. if sql_eq (prop_of r ''img_id'') (prop_of payload ''img_id'') = Some True
                       then prop_of r' ''uri'' = prop_of payload ''uri''
                            \<and> (\<forall>c \<in> set images_nullable_columns.
                                  (prop_of payload c = Undefined \<longrightarrow> prop_of r' c = Null)
                                \<and> (truthy (prop_of payload c)
                                    \<longrightarrow> prop_of r' c = prop_of payload c))
                            \<and> (\<forall>c. c \<noteq> ''uri'' \<and> c \<notin> set images_nullable_columns
                                  \<longrightarrow> prop_of r' c = prop_of r c)
                       else r' = r)
              (d ''images'') (d' ''images'')
            \<and> (\<forall>t. t \<noteq> ''images'' \<longrightarrow> d' t = d t))
    \<and> TemplatesRepository_update_stmt payload \<noteq> None
    \<and> (case run_stmt (TemplatesRepository_update_stmt payload) d of
          Throw \<Rightarrow> True
        | Return d' \<Rightarrow>
            list_all2
              (\<lambda>r r'. if sql_eq (prop_of r ''template_id'') (prop_of payload ''template_id'')
                          = Some True
                       then prop_of r' ''version'' = prop_of payload ''version''
                            \<and> prop_of r' ''roi_map_json'' = prop_of payload ''roi_map_json''
                            \<and> (\<forall>c. c \<noteq> ''version'' \<and> c \<noteq> ''roi_map_json''
                                  \<longrightarrow> prop_of r' c = prop_of r c)
                       else r' = r)
              (d ''templates'') (d' ''templates'')
            \<and> (\<forall>t. t \<noteq> ''templates'' \<longrightarrow> d' t = d t))"
proof (intro conjI)
  show "(\<forall>(k, v) \<in> set payload. k = ''id'' \<or> v = Undefined)
       \<longrightarrow> RecordsRepository_update_stmt rid payload = None
           \<and> RecogEventsRepository_update_stmt rid payload = None"
    unfolding update_fields_empty [symmetric]
    by (simp add: RecordsRepository_update_stmt_def RecogEventsRepository_update_stmt_def)
  show "case run_stmt (RecordsRepository_update_stmt rid payload) d of
          Throw \<Rightarrow> True
        | Return d' \<Rightarrow>
            list_all2
              (\<lambda>r r'. if prop_of r ''id'' = Num rid
                       then (\<forall>c. prop_of r' c =
                               (if c \<noteq> ''id'' \<and> prop_of payload c \<noteq> Undefined
                                then prop_of payload c else prop_of r c))
                       else r' = r)
              (d ''records'') (d' ''records'')
            \<and> (\<forall>t. t \<noteq> ''records'' \<longrightarrow> d' t = d t)"
  proof (cases "run_stmt (RecordsRepository_update_stmt rid payload) d")
    case Throw
    then show ?thesis by simp
  next
    case (Return d')
    show ?thesis unfolding Return outcome.case
      by (rule partial_update_frame [OF assms Return [unfolded RecordsRepository_update_stmt_def]])
  qed
  show "set (map fst (update_fields payload)) \<subseteq> set (unconstrained_columns ''records'')
          \<longrightarrow> run_stmt (RecordsRepository_update_stmt rid payload) d \<noteq> Throw"
    unfolding RecordsRepository_update_stmt_def
    by (intro impI partial_update_accepted) (simp_all add: table_columns_def)
  show "case run_stmt (RecogEventsRepository_update_stmt rid payload) d of
          Throw \<Rightarrow> True
        | Return d' \<Rightarrow>
            list_all2
              (\<lambda>r r'. if prop_of r ''id'' = Num rid
                       then (\<forall>c. prop_of r' c =
                               (if c \<noteq> ''id'' \<and> prop_of payload c \<noteq> Undefined
                                then prop_of payload c else prop_of r c))
                       else r' = r)
              (d ''recog_events'') (d' ''recog_events'')
            \<and> (\<forall>t. t \<noteq> ''recog_events'' \<longrightarrow> d' t = d t)"
  proof (cases "run_stmt (RecogEventsRepository_update_stmt rid payload) d")
    case Throw
    then show ?thesis by simp
  next
    case (Return d')
    show ?thesis unfolding Return outcome.case
      by (rule partial_update_frame [OF assms Return [unfolded RecogEventsRepository_update_stmt_def]])
  qed
  show "set (map fst (update_fields payload)) \<subseteq> set (unconstrained_columns ''recog_events'')
          \<longrightarrow> run_stmt (RecogEventsRepository_update_stmt rid payload) d \<noteq> Throw"
    unfolding RecogEventsRepository_update_stmt_def
    by (intro impI partial_update_accepted) (simp_all add: table_columns_def)
  show "ImagesRepository_update_stmt payload \<noteq> None"
    by (simp add: ImagesRepository_update_stmt_def)
  show "TemplatesRepository_update_stmt payload \<noteq> None"
    by (simp add: TemplatesRepository_update_stmt_def)
  show "case run_stmt (TemplatesRepository_update_stmt payload) d of
          Throw \<Rightarrow> True
        | Return d' \<Rightarrow>
            list_all2
              (\<lambda>r r'. if sql_eq (prop_of r ''template_id'') (prop_of payload ''template_id'')
                          = Some True
                       then prop_of r' ''version'' = prop_of payload ''version''
                            \<and> prop_of r' ''roi_map_json'' = prop_of payload ''roi_map_json''
                            \<and> (\<forall>c. c \<noteq> ''version'' \<and> c \<noteq> ''roi_map_json''
                                  \<longrightarrow> prop_of r' c = prop_of r c)
                       else r' = r)
              (d ''templates'') (d' ''templates'')
            \<and> (\<forall>t. t \<noteq> ''templates'' \<longrightarrow> d' t = d t)"
  proof (cases "run_stmt (TemplatesRepository_update_stmt payload) d")
    case Throw
    then show ?thesis by simp
  next
    case (Return d')
    show ?thesis unfolding Return outcome.case
      by (rule templates_update_frame [OF Return])
  qed
  show "case run_stmt (ImagesRepository_update_stmt payload) d of
          Throw \<Rightarrow> True
        | Return d' \<Rightarrow>
            list_all2
              (\<lambda>r r'. if sql_eq (prop_of r ''img_id'') (prop_of payload ''img_id'') = Some True
                       then prop_of r' ''uri'' = prop_of payload ''uri''
                            \<and> (\<forall>c \<in> set images_nullable_columns.
                                  (prop_of payload c = Undefined \<longrightarrow> prop_of r' c = Null)
                                \<and> (truthy (prop_of payload c)
                                    \<longrightarrow> prop_of r' c = prop_of payload c))
                            \<and> (\<forall>c. c \<noteq> ''uri'' \<and> c \<notin> set images_nullable_columns
                                  \<longrightarrow> prop_of r' c = prop_of r c)
                       else r' = r)
              (d ''images'') (d' ''images'')
            \<and> (\<forall>t. t \<noteq> ''images'' \<longrightarrow> d' t = d t)"
  proof (cases "run_stmt (ImagesRepository_update_stmt payload) d")
    case Throw
    then show ?thesis by simp
  next
    case (Return d')
    note fr = images_update_frame [OF Return]
    have "list_all2
              (\<lambda>r r'. if sql_eq (prop_of r ''img_id'') (prop_of payload ''img_id'') = Some True
                       then prop_of r' ''uri'' = prop_of payload ''uri''
                            \<and> (\<forall>c \<in> set images_nullable_columns.
                                  (prop_of payload c = Undefined \<longrightarrow> prop_of r' c = Null)
                                \<and> (truthy (prop_of payload c)
                                    \<longrightarrow> prop_of r' c = prop_of payload c))
                            \<and> (\<forall>c. c \<noteq> ''uri'' \<and> c \<notin> set images_nullable_columns
                                  \<longrightarrow> prop_of r' c = prop_of r c)
                       else r' = r)
              (d ''images'') (d' ''images'')"
    proof (rule list_all2_mono [OF conjunct1 [OF fr]])
      fix r r' :: row
      assume h: "if sql_eq (prop_of r ''img_id'') (prop_of payload ''img_id'') = Some True
              then prop_of r' ''uri'' = prop_of payload ''uri''
                   \<and> (\<forall>c \<in> set images_nullable_columns.
                         prop_of r' c = js_or (prop_of payload c) Null)
                   \<and> (\<forall>c. c \<noteq> ''uri'' \<and> c \<notin> set images_nullable_columns
                         \<longrightarrow> prop_of r' c = prop_of r c)
              else r' = r"
      show "if sql_eq (prop_of r ''img_id'') (prop_of payload ''img_id'') = Some True
                       then prop_of r' ''uri'' = prop_of payload ''uri''
                            \<and> (\<forall>c \<in> set images_nullable_columns.
                                  (prop_of payload c = Undefined \<longrightarrow> prop_of r' c = Null)
                                \<and> (truthy (prop_of payload c)
                                    \<longrightarrow> prop_of r' c = prop_of payload c))
                            \<and> (\<forall>c. c \<noteq> ''uri'' \<and> c \<notin> set images_nullable_columns
                                  \<longrightarrow> prop_of r' c = prop_of r c)
                       else r' = r"
      proof (cases "sql_eq (prop_of r ''img_id'') (prop_of payload ''img_id'') = Some True")
        case True
        with h show ?thesis by (simp add: js_or_def)
      next
        case False
        with h show ?thesis by simp
      qed
    qed
    from this conjunct2 [OF fr] show ?thesis unfolding Return outcome.case by (rule conjI)
  qed
qed

theorem update_partial_or_full_witness:
  "distinct (map fst example_event_update)
   \<and> RecogEventsRepository_update_stmt 2 [(''id'', Num 2), (''conf'', Undefined)] = None
   \<and> set (map fst (update_fields example_event_update))
        \<subseteq> set (unconstrained_columns ''recog_events'')
   \<and> run_stmt (RecogEventsRepository_update_stmt 2 example_event_update) example_corrections
        \<noteq> Throw
   \<and> column_after ''value'' ''recog_events''
      (run_stmt (RecogEventsRepository_update_stmt 2 example_event_update) example_corrections)
     = Some [Str ''7'', Str ''3'']
   \<and> column_after ''conf'' ''recog_events''
      (run_stmt (RecogEventsRepository_update_stmt 2 example_event_update) example_corrections)
     = Some [Num 0.9, Num 0.4]"
proof -
  have d1: "distinct (map fst example_event_update)"
    by (simp add: example_event_update_def)
  have d2: "distinct (map fst [(''id'', Num 2), (''conf'', Undefined)])"
    by simp
  have none: "RecogEventsRepository_update_stmt 2 [(''id'', Num 2), (''conf'', Undefined)] = None"
    using update_partial_or_full [OF d2, of 2 example_corrections] by simp
  have sub: "set (map fst (update_fields example_event_update))
               \<subseteq> set (unconstrained_columns ''recog_events'')"
    by (simp add: update_fields_def example_event_update_def unconstrained_columns_def
          table_columns_def primary_key_def not_null_columns_def foreign_keys_def)
  have ok: "run_stmt (RecogEventsRepository_update_stmt 2 example_event_update)
              example_corrections \<noteq> Throw"
    using update_partial_or_full [OF d1, of 2 example_corrections] sub by blast
  from d1 none sub ok update_values show ?thesis by (intro conjI) (elim conjE, assumption)+
qed

text \<open>
  C8 as stated fails for images: an update whose payload has no \<^verbatim>\<open>blur\<close>
  is accepted and overwrites the stored \<^verbatim>\<open>blur\<close> of image \<^verbatim>\<open>I3\<close> with
  \<^verbatim>\<open>NULL\<close>, and a payload with nothing but the key still issues a statement.
\<close>

theorem images_update_overwrites_absent_fields:
  "column_values ''blur'' (example_images ''images'') = [Num 0.5, Null, Num 0.1, Num 0.1]
   \<and> prop_of example_image_update ''img_id'' = Str ''I3''
   \<and> prop_of example_image_update ''blur'' = Undefined
   \<and> column_after ''blur'' ''images''
        (run_stmt (ImagesRepository_update_stmt example_image_update) example_images)
       = Some [Num 0.5, Null, Null, Num 0.1]
   \<and> ImagesRepository_update_stmt [(''img_id'', Str ''I3'')] \<noteq> None"
  by (simp add: ImagesRepository_update_stmt_def run_stmt_def db_after_def example_images_def
        example_image_update_def column_after_def column_values_def prop_of_def set_columns_def
        sql_eq_def js_or_def table_columns_def row_accepted_def key_accepted_def
        not_null_columns_def foreign_keys_def primary_key_def)

text \<open>
  A rejected update: \<^verbatim>\<open>recordsRepository.update(1, {source_img_id: 'missing'})\<close>
  names an image that does not exist, the foreign key fails and the call throws.
\<close>

lemma orphan_update_throws:
  "run_stmt (RecordsRepository_update_stmt 1 example_orphan_update)
     (empty_db(''records'' := [[(''id'', Num 1), (''source_img_id'', Null),
                                (''created_at'', Str ''2024-01-01T00:00:00Z'')]])) = Throw"
  by (simp add: run_stmt_def db_after_def RecordsRepository_update_stmt_def
        update_fields_def example_orphan_update_def empty_db_def
        table_columns_def row_accepted_def key_accepted_def not_null_columns_def
        foreign_keys_def primary_key_def set_columns_def sql_eq_def holds_def
        prop_of_Cons prop_of_Nil)

text \<open>
  \<^verbatim>\<open>RecordsRepository.create\<close> on the example record, in an empty database: the
  row it inserts and the \<^verbatim>\<open>lastInsertRowId\<close> it returns.
\<close>

lemma create_example_record:
  "RecordsRepository_create example_record empty_db =
     Return (1, (empty_db(''records'' :=
        [[(''id'', Num 1), (''date'', Null), (''hour'', Null), (''site'', Null),
          (''form_type'', Null), (''model_code'', Null),
          (''input_L_mm'', Null), (''input_W_mm'', Null), (''input_T_mm'', Null),
          (''input_count'', Null),
          (''output_L_mm'', Null), (''output_W_mm'', Null), (''output_T_mm'', Null),
          (''output_count'', Num 10),
          (''qc_ok'', Null), (''qc_ng'', Num 10), (''operator_id'', Str ''op-7''),
          (''batch_no'', Null), (''line_id'', Null),
          (''notes'', Null), (''img_ref'', Null), (''source_img_id'', Null),
          (''model_version'', Null), (''verified'', Num 0),
          (''created_at'', Str ''2024-01-01T00:00:00Z'')]]))
       (''sqlite_sequence'' := [[(''name'', Str ''records''), (''seq'', Num 1)]]))"
  by (simp add: RecordsRepository_create_def example_record_def empty_db_def
        table_columns_def insert_row_def next_rowid_def sequence_of_def record_sequence_def
        autoincrement_def column_default_def row_accepted_def not_null_columns_def
        foreign_keys_def primary_key_def holds_def prop_of_Cons prop_of_Nil js_or_def Let_def)

lemma created_columns:
  "column_after ''qc_ok'' ''records''
      (db_after (RecordsRepository_create example_record empty_db)) = Some [Null]
   \<and> column_after ''notes'' ''records''
      (db_after (RecordsRepository_create example_record empty_db)) = Some [Null]
   \<and> column_after ''input_count'' ''records''
      (db_after (RecordsRepository_create example_record empty_db)) = Some [Null]
   \<and> column_after ''qc_ng'' ''records''
      (db_after (RecordsRepository_create example_record empty_db)) = Some [Num 10]
   \<and> column_after ''verified'' ''records''
      (db_after (RecordsRepository_create example_record empty_db)) = Some [Num 0]"
  unfolding create_example_record
  by (simp add: db_after_def column_after_def column_values_def prop_of_Cons prop_of_Nil)

lemma updated_columns:
  "column_after ''qc_ok'' ''records''
      (and_then (db_after (RecordsRepository_create example_record empty_db))
         (run_stmt (RecordsRepository_update_stmt 1 example_zero_update))) = Some [Num 0]
   \<and> column_after ''notes'' ''records''
      (and_then (db_after (RecordsRepository_create example_record empty_db))
         (run_stmt (RecordsRepository_update_stmt 1 example_zero_update))) = Some [Str []]"
  unfolding create_example_record
  by (simp add: db_after_def and_then_def run_stmt_def RecordsRepository_update_stmt_def
        update_fields_def example_zero_update_def column_after_def column_values_def
        table_columns_def row_accepted_def key_accepted_def not_null_columns_def
        foreign_keys_def primary_key_def set_columns_def sql_eq_def
        prop_of_Cons prop_of_Nil)

lemma created_image_columns:
  "column_after ''blur'' ''images'' (ImagesRepository_create example_blurless_image empty_db)
     = Some [Null]
   \<and> column_after ''glare'' ''images'' (ImagesRepository_create example_blurless_image empty_db)
     = Some [Num 0.2]"
  by (simp add: ImagesRepository_create_def example_blurless_image_def empty_db_def
        db_after_def column_after_def column_values_def
        table_columns_def insert_row_def next_rowid_def sequence_of_def record_sequence_def
        autoincrement_def column_default_def row_accepted_def not_null_columns_def
        foreign_keys_def primary_key_def holds_def prop_of_Cons prop_of_Nil js_or_def Let_def)

text \<open>
  C2 fails at a record with \<^verbatim>\<open>qc_ok = 0\<close> and \<^verbatim>\<open>notes = ""\<close>, which
  \<^verbatim>\<open>validateRecord\<close> accepts: \<^verbatim>\<open>create\<close> binds \<^verbatim>\<open>record.qc_ok || null\<close> and
  stores \<^verbatim>\<open>NULL\<close> for both, as it does for the omitted \<^verbatim>\<open>input_count\<close>, so
  zero and unknown cannot be told apart after the insert; a non-zero \<^verbatim>\<open>qc_ng\<close>
  is stored as given and the omitted flag \<^verbatim>\<open>verified\<close> as 0. The sibling
  \<^verbatim>\<open>update\<close>, given the same two values for the row just created, stores 0 and
  the empty string. \<^verbatim>\<open>ImagesRepository.create\<close> does the same to \<^verbatim>\<open>blur = 0\<close>.
\<close>

theorem create_zero_becomes_null:
  "prop_of example_record ''qc_ok'' = Num 0
   \<and> prop_of example_record ''notes'' = Str []
   \<and> prop_of example_record ''input_count'' = Undefined
   \<and> validateRecord Number_of_string example_record = []
   \<and> column_after ''qc_ok'' ''records''
        (db_after (RecordsRepository_create example_record empty_db)) = Some [Null]
   \<and> column_after ''notes'' ''records''
        (db_after (RecordsRepository_create example_record empty_db)) = Some [Null]
   \<and> column_after ''input_count'' ''records''
        (db_after (RecordsRepository_create example_record empty_db)) = Some [Null]
   \<and> column_after ''qc_ng'' ''records''
        (db_after (RecordsRepository_create example_record empty_db)) = Some [Num 10]
   \<and> column_after ''verified'' ''records''
        (db_after (RecordsRepository_create example_record empty_db)) = Some [Num 0]
   \<and> column_after ''qc_ok'' ''records''
        (and_then (db_after (RecordsRepository_create example_record empty_db))
           (run_stmt (RecordsRepository_update_stmt 1 example_zero_update))) = Some [Num 0]
   \<and> column_after ''notes'' ''records''
        (and_then (db_after (RecordsRepository_create example_record empty_db))
           (run_stmt (RecordsRepository_update_stmt 1 example_zero_update))) = Some [Str []]
   \<and> prop_of example_blurless_image ''blur'' = Num 0
   \<and> column_after ''blur'' ''images''
        (ImagesRepository_create example_blurless_image empty_db) = Some [Null]"
proof -
  have given: "prop_of example_record ''qc_ok'' = Num 0
      \<and> prop_of example_record ''notes'' = Str []
      \<and> prop_of example_record ''input_count'' = Undefined
      \<and> prop_of example_blurless_image ''blur'' = Num 0"
    by (simp add: example_record_def example_blurless_image_def prop_of_Cons prop_of_Nil)
  have valid: "validateRecord Number_of_string example_record = []"
    by (simp add: validateRecord_def numericFields_def example_record_def
          prop_of_Cons prop_of_Nil)
  from given valid created_columns updated_columns created_image_columns
  show ?thesis by (intro conjI) (elim conjE, assumption)+
qed

text \<open>
  The defaults that \<^verbatim>\<open>create\<close> gives by design: a recognition event created
  without \<^verbatim>\<open>corrected\<close> and \<^verbatim>\<open>created_at\<close> is stored with \<^verbatim>\<open>corrected = 0\<close>
  and the current time. Its \<^verbatim>\<open>conf = 0\<close> is stored as \<^verbatim>\<open>NULL\<close>, as above.
\<close>

lemma create_event_defaults:
  "column_after ''corrected'' ''recog_events''
      (db_after (RecogEventsRepository_create now
         [(''img_id'', Str ''I1''), (''field_id'', Str ''qc_ok''), (''conf'', Num 0)]
         example_images)) = Some [Num 0]
   \<and> column_after ''created_at'' ''recog_events''
      (db_after (RecogEventsRepository_create now
         [(''img_id'', Str ''I1''), (''field_id'', Str ''qc_ok''), (''conf'', Num 0)]
         example_images)) = Some [Str now]
   \<and> column_after ''conf'' ''recog_events''
      (db_after (RecogEventsRepository_create now
         [(''img_id'', Str ''I1''), (''field_id'', Str ''qc_ok''), (''conf'', Num 0)]
         example_images)) = Some [Null]"
  by (simp add: RecogEventsRepository_create_def example_images_def
        db_after_def column_after_def column_values_def
        table_columns_def insert_row_def next_rowid_def sequence_of_def record_sequence_def
        autoincrement_def column_default_def row_accepted_def not_null_columns_def
        foreign_keys_def primary_key_def holds_def sql_eq_def
        prop_of_Cons prop_of_Nil js_or_def Let_def)

text \<open>
  A \<^verbatim>\<open>create\<close> that the engine rejects throws: an event or a record that names
  an image that does not exist, a record without \<^verbatim>\<open>created_at\<close>, a template
  without \<^verbatim>\<open>roi_map_json\<close>, an image whose \<^verbatim>\<open>img_id\<close> is already there.
\<close>

lemma create_orphan_throws:
  "RecogEventsRepository_create now
      [(''img_id'', Str ''missing''), (''field_id'', Str ''qc_ok'')] example_images = Throw
   \<and> RecordsRepository_create
      [(''source_img_id'', Str ''missing''), (''created_at'', Str ''2024-01-01T00:00:00Z'')]
      example_images = Throw
   \<and> RecordsRepository_create [(''qc_ok'', Num 1)] example_images = Throw
   \<and> TemplatesRepository_create
      [(''template_id'', Str ''T1''), (''version'', Str ''1'')] empty_db = Throw
   \<and> and_then (ImagesRepository_create example_blurless_image empty_db)
        (ImagesRepository_create example_blurless_image) = Throw"
  by (simp add: RecogEventsRepository_create_def RecordsRepository_create_def
        TemplatesRepository_create_def ImagesRepository_create_def
        example_images_def example_blurless_image_def empty_db_def
        db_after_def and_then_def
        table_columns_def insert_row_def next_rowid_def sequence_of_def record_sequence_def
        autoincrement_def column_default_def row_accepted_def not_null_columns_def
        foreign_keys_def primary_key_def holds_def sql_eq_def
        prop_of_Cons prop_of_Nil js_or_def Let_def)

end
